theory Spec2Isabelle
  imports Complex_Main "HOL-Library.Word"
begin


section \<open>Basic types of the simulator\<close>

text \<open>
  \<^verbatim>\<open>UInt32\<close> and \<^verbatim>\<open>UInt64\<close> are machine words: their arithmetic wraps. \<^verbatim>\<open>Real\<close> is
  the simulator's floating-point type; it is idealised here as a mathematical real, so
  rounding is not part of the model.
\<close>

type_synonym UInt32 = "32 word"
type_synonym UInt64 = "64 word"

datatype CVector3 = CVector3 (GetX: real) (GetY: real) (GetZ: real)

text \<open>
  Modelled from the spec: the order on vectors used by the uniform generator's check is
  componentwise (\<^verbatim>\<open>CVector3::operator<=\<close> is declared in a header outside the sources).
\<close>

definition vec_le :: "CVector3 \<Rightarrow> CVector3 \<Rightarrow> bool" where
  "vec_le a b = (GetX a \<le> GetX b \<and> GetY a \<le> GetY b \<and> GetZ a \<le> GetZ b)"

text \<open>
  Every error of the sources is a \<^verbatim>\<open>CARGoSException\<close> carrying the text streamed into
  \<^verbatim>\<open>THROW_ARGOSEXCEPTION\<close>; \<^verbatim>\<open>THROW_ARGOSEXCEPTION_NESTED\<close> wraps a caught exception.
\<close>

datatype CARGoSException =
    CARGoSException string
  | CARGoSException_Nested string CARGoSException

text \<open>
  A call either returns (\<open>Done\<close>) or throws (\<open>Throw\<close>); both carry the state reached,
  because what a call has mutated before it throws stays mutated.
\<close>

datatype ('a, 's) outcome = Done 'a 's | Throw CARGoSException 's


subsection \<open>Message text\<close>

text \<open>The quote characters of the messages, and a text between quotes.\<close>

definition dquoted :: "string \<Rightarrow> string" where
  "dquoted s = CHR 0x22 # s @ [CHR 0x22]"

definition squoted :: "string \<Rightarrow> string" where
  "squoted s = CHR 0x27 # s @ [CHR 0x27]"

subsection \<open>Decimal rendering of unsigned integers\<close>

text \<open>
  Modelled from the spec: \<^verbatim>\<open>ToString\<close> and the stream insertion of an unsigned integer
  render its decimal digits (\<^verbatim>\<open>string_utilities.h\<close> is outside the sources).
\<close>

definition digit_char :: "nat \<Rightarrow> char" where
  "digit_char d = ''0123456789'' ! d"

function ToString :: "nat \<Rightarrow> string" where
  "ToString n = (if n < 10 then [digit_char n] else ToString (n div 10) @ [digit_char (n mod 10)])"
  by pat_completeness auto
termination
  by (relation "measure id") auto

declare ToString.simps [simp del]

section \<open>Random placement generators\<close>

text \<open>
  The random number generator of the simulator (\<^verbatim>\<open>CRNG\<close>) is outside the sources. It is
  a parameter: a state of type \<open>'r\<close> and the two draws the generators use.
  \<^verbatim>\<open>Uniform(CRange<Real>(min, max))\<close> is \<open>RNG_Uniform min max\<close>,
  \<^verbatim>\<open>Gaussian(std_dev, mean)\<close> is \<open>RNG_Gaussian std_dev mean\<close>.
\<close>

record 'r CRNG =
  RNG_Uniform :: "real \<Rightarrow> real \<Rightarrow> 'r \<Rightarrow> real \<times> 'r"
  RNG_Gaussian :: "real \<Rightarrow> real \<Rightarrow> 'r \<Rightarrow> real \<times> 'r"

text \<open>
  The four generator classes. A grid generator is the only one with mutable state, the
  counter \<^verbatim>\<open>m_unNumEntityPlaced\<close>.
\<close>

datatype RealNumberGenerator =
    ConstantGenerator CVector3
  | UniformGenerator CVector3 CVector3
  | GaussianGenerator CVector3 CVector3
  | GridGenerator CVector3 "UInt32 \<times> UInt32 \<times> UInt32" CVector3 UInt32

text \<open>The constructor of \<^verbatim>\<open>GridGenerator\<close>: the counter starts at 0, a zero layout value is refused.\<close>

definition grid_layout_exception :: CARGoSException where
  "grid_layout_exception =
     CARGoSException
       (squoted ''layout'' @ '' values (distribute position, method '' @ squoted ''grid''
          @ '') must all be different than 0'')"

definition GridGenerator_new ::
  "CVector3 \<Rightarrow> UInt32 \<times> UInt32 \<times> UInt32 \<Rightarrow> CVector3 \<Rightarrow> CARGoSException + RealNumberGenerator" where
  "GridGenerator_new c_center un_layout c_distances =
     (case un_layout of (l0, l1, l2) \<Rightarrow>
        if l0 = 0 \<or> l1 = 0 \<or> l2 = 0
        then Inl grid_layout_exception
        else Inr (GridGenerator c_center (l0, l1, l2) c_distances 0))"

text \<open>The two exceptions of \<^verbatim>\<open>GridGenerator::operator()\<close>, with the text the source streams.\<close>

definition grid_retry_exception :: "UInt32 \<Rightarrow> CARGoSException" where
  "grid_retry_exception m_unNumEntityPlaced =
     CARGoSException
       (''Impossible to place entity #'' @ ToString (unat m_unNumEntityPlaced) @ '' in grid'')"

definition grid_exhausted_exception :: CARGoSException where
  "grid_exhausted_exception =
     CARGoSException
       (''Distribute position, method '' @ squoted ''grid''
          @ '': trying to place more entities than allowed by the '' @ squoted ''layout''
          @ '', check your '' @ squoted ''quantity'' @ '' tag'')"

text \<open>
  \<^verbatim>\<open>operator()(bool b_is_retry)\<close> of the four classes. The result is the vector, the
  generator after the call and the random state after the call; a throw leaves the
  generator as it was. The uniform and the gaussian generator draw X, then Y, then Z.
\<close>

fun operator_call ::
  "'r CRNG \<Rightarrow> RealNumberGenerator \<Rightarrow> bool \<Rightarrow> 'r
     \<Rightarrow> CARGoSException + (CVector3 \<times> RealNumberGenerator \<times> 'r)" where
  "operator_call rng (ConstantGenerator m_cValue) b_is_retry r =
     Inr (m_cValue, ConstantGenerator m_cValue, r)"
| "operator_call rng (UniformGenerator m_cMin m_cMax) b_is_retry r =
     (let (fRandX, r1) =
            (if GetX m_cMax > GetX m_cMin
             then RNG_Uniform rng (GetX m_cMin) (GetX m_cMax) r
             else (GetX m_cMax, r));
          (fRandY, r2) =
            (if GetY m_cMax > GetY m_cMin
             then RNG_Uniform rng (GetY m_cMin) (GetY m_cMax) r1
             else (GetY m_cMax, r1));
          (fRandZ, r3) =
            (if GetZ m_cMax > GetZ m_cMin
             then RNG_Uniform rng (GetZ m_cMin) (GetZ m_cMax) r2
             else (GetZ m_cMax, r2))
      in Inr (CVector3 fRandX fRandY fRandZ, UniformGenerator m_cMin m_cMax, r3))"
| "operator_call rng (GaussianGenerator m_cMean m_cStdDev) b_is_retry r =
     (let (fX, r1) = RNG_Gaussian rng (GetX m_cStdDev) (GetX m_cMean) r;
          (fY, r2) = RNG_Gaussian rng (GetY m_cStdDev) (GetY m_cMean) r1;
          (fZ, r3) = RNG_Gaussian rng (GetZ m_cStdDev) (GetZ m_cMean) r2
      in Inr (CVector3 fX fY fZ, GaussianGenerator m_cMean m_cStdDev, r3))"
| "operator_call rng (GridGenerator m_cCenter (l0, l1, l2) m_cDistances m_unNumEntityPlaced)
       b_is_retry r =
     (if b_is_retry
      then Inl (grid_retry_exception m_unNumEntityPlaced)
      else if m_unNumEntityPlaced < l0 * l1 * l2
      then Inr
        (CVector3
           (GetX m_cCenter + real (unat (l0 - 1)) * GetX m_cDistances * 0.5
              - real (unat (m_unNumEntityPlaced mod l0)) * GetX m_cDistances)
           (GetY m_cCenter + real (unat (l1 - 1)) * GetY m_cDistances * 0.5
              - real (unat ((m_unNumEntityPlaced div l0) mod l1)) * GetY m_cDistances)
           (GetZ m_cCenter + real (unat (l2 - 1)) * GetZ m_cDistances * 0.5
              - real (unat (m_unNumEntityPlaced div (l0 * l1))) * GetZ m_cDistances),
         GridGenerator m_cCenter (l0, l1, l2) m_cDistances (m_unNumEntityPlaced + 1),
         r)
      else Inl grid_exhausted_exception)"

text \<open>\<open>calls rng g k r\<close>: \<open>k\<close> successive calls with \<^verbatim>\<open>b_is_retry = false\<close>, the vectors in the order returned.\<close>

fun calls ::
  "'r CRNG \<Rightarrow> RealNumberGenerator \<Rightarrow> nat \<Rightarrow> 'r
     \<Rightarrow> CARGoSException + (CVector3 list \<times> RealNumberGenerator \<times> 'r)" where
  "calls rng g 0 r = Inr ([], g, r)"
| "calls rng g (Suc k) r =
     (case operator_call rng g False r of
        Inl ex \<Rightarrow> Inl ex
      | Inr (v, g', r') \<Rightarrow>
          (case calls rng g' k r' of
             Inl ex \<Rightarrow> Inl ex
           | Inr (vs, g'', r'') \<Rightarrow> Inr (v # vs, g'', r'')))"

text \<open>
  The grid of the spec's words: the cell with indices \<open>(ix, iy, iz)\<close> of a grid of
  \<open>lx \<times> ly \<times> lz\<close> cells centred on \<open>c\<close> with spacing \<open>d\<close>, and the indices of the
  \<open>k\<close>-th cell in row-major order (x fastest, then y, then z).
\<close>

definition grid_cell :: "CVector3 \<Rightarrow> nat \<times> nat \<times> nat \<Rightarrow> CVector3 \<Rightarrow> nat \<times> nat \<times> nat \<Rightarrow> CVector3" where
  "grid_cell c l d i =
     (case l of (lx, ly, lz) \<Rightarrow> case i of (ix, iy, iz) \<Rightarrow>
        CVector3 (GetX c + (real lx - 1) * GetX d / 2 - real ix * GetX d)
                 (GetY c + (real ly - 1) * GetY d / 2 - real iy * GetY d)
                 (GetZ c + (real lz - 1) * GetZ d / 2 - real iz * GetZ d))"

definition row_major :: "nat \<times> nat \<times> nat \<Rightarrow> nat \<Rightarrow> nat \<times> nat \<times> nat" where
  "row_major l k = (case l of (lx, ly, lz) \<Rightarrow> (k mod lx, (k div lx) mod ly, k div (lx * ly)))"

definition layout_nat :: "UInt32 \<times> UInt32 \<times> UInt32 \<Rightarrow> nat \<times> nat \<times> nat" where
  "layout_nat l = (case l of (l0, l1, l2) \<Rightarrow> (unat l0, unat l1, unat l2))"

definition cell_count :: "UInt32 \<times> UInt32 \<times> UInt32 \<Rightarrow> nat" where
  "cell_count l = (case l of (l0, l1, l2) \<Rightarrow> unat l0 * unat l1 * unat l2)"

text \<open>A random number generator that can be run: the uniform draw is the midpoint of the range, the gaussian draw the mean; the state counts the draws.\<close>

definition rng0 :: "nat CRNG" where
  "rng0 = \<lparr>RNG_Uniform = (\<lambda>lo hi r. ((lo + hi) / 2, Suc r)), RNG_Gaussian = (\<lambda>sd m r. (m, Suc r))\<rparr>"

text \<open>The contract of \<^verbatim>\<open>CRNG::Uniform\<close>: a draw from a range lies in the range.\<close>

definition RNG_in_range :: "'r CRNG \<Rightarrow> bool" where
  "RNG_in_range rng =
     (\<forall>lo hi r. lo < hi \<longrightarrow>
        lo \<le> fst (RNG_Uniform rng lo hi r) \<and> fst (RNG_Uniform rng lo hi r) \<le> hi)"

text \<open>A sample \<open>v\<close> of a uniform generator with bounds \<open>lo\<close>, \<open>hi\<close> is as the spec asks.\<close>

definition uniform_sample_ok :: "CVector3 \<Rightarrow> CVector3 \<Rightarrow> CVector3 \<Rightarrow> bool" where
  "uniform_sample_ok lo hi v =
     (vec_le lo v \<and> vec_le v hi
      \<and> (GetX lo = GetX hi \<longrightarrow> GetX v = GetX hi)
      \<and> (GetY lo = GetY hi \<longrightarrow> GetY v = GetY hi)
      \<and> (GetZ lo = GetZ hi \<longrightarrow> GetZ v = GetZ hi))"


section \<open>Entities, physics engines and the space\<close>

subsection \<open>Entities\<close>

text \<open>
  An entity owns its components, so an entity object is a tree: the components of a
  composable entity are stored in it by name. What a \<^verbatim>\<open>dynamic_cast\<close> of the sources can
  find out about an object is its class: an embodied entity (which is positional), a
  positional entity that is not embodied, a composable entity, a controllable entity, or
  none of these.
\<close>

datatype entity_class =
    CEmbodiedEntity_class
  | CPositionalEntity_class
  | CComposableEntity_class
  | CControllableEntity_class
  | CEntity_class

datatype CEntity =
  CEntity (m_strId: string) (GetTypeDescription: string) (m_class: entity_class)
          (m_cPosition: CVector3) (m_cOrientation: CVector3) (m_bMovable: bool)
          (m_mapComponents: "(string \<times> CEntity) list")

definition SetId :: "string \<Rightarrow> CEntity \<Rightarrow> CEntity" where
  "SetId str_id e =
     CEntity str_id (GetTypeDescription e) (m_class e) (m_cPosition e) (m_cOrientation e)
       (m_bMovable e) (m_mapComponents e)"

definition SetComponents :: "(string \<times> CEntity) list \<Rightarrow> CEntity \<Rightarrow> CEntity" where
  "SetComponents comps e =
     CEntity (m_strId e) (GetTypeDescription e) (m_class e) (m_cPosition e) (m_cOrientation e)
       (m_bMovable e) comps"

text \<open>
  A pointer to an entity is the address of the root object that owns it and the names of
  the components that lead from the root to it; the root itself has the empty path.
  \<^verbatim>\<open>HasParent\<close> and \<^verbatim>\<open>GetParent\<close> read the path, so the parent relation is a tree by
  construction. The heap maps the addresses of the live root objects to the objects.
\<close>

type_synonym entity_ptr = "nat \<times> string list"
type_synonym heap = "nat \<rightharpoonup> CEntity"

definition HasParent :: "entity_ptr \<Rightarrow> bool" where
  "HasParent pc = (snd pc \<noteq> [])"

definition GetParent :: "entity_ptr \<Rightarrow> entity_ptr" where
  "GetParent pc = (fst pc, butlast (snd pc))"

definition HasComponent :: "CEntity \<Rightarrow> string \<Rightarrow> bool" where
  "HasComponent e str_component = (map_of (m_mapComponents e) str_component \<noteq> None)"

primrec deref_path :: "string list \<Rightarrow> CEntity \<Rightarrow> CEntity option" where
  "deref_path [] e = Some e"
| "deref_path (n # ns) e =
     (case map_of (m_mapComponents e) n of None \<Rightarrow> None | Some c \<Rightarrow> deref_path ns c)"

definition deref :: "heap \<Rightarrow> entity_ptr \<Rightarrow> CEntity option" where
  "deref h pc = (case h (fst pc) of None \<Rightarrow> None | Some e \<Rightarrow> deref_path (snd pc) e)"

text \<open>\<open>under pc r\<close>: \<open>r\<close> points to \<open>pc\<close>'s object or into the subtree it owns.\<close>

definition under :: "entity_ptr \<Rightarrow> entity_ptr \<Rightarrow> bool" where
  "under pc r = (fst r = fst pc \<and> take (length (snd pc)) (snd r) = snd pc)"

text \<open>Applying a change to the object a pointer points to, inside its root's tree.\<close>

primrec modify_component ::
  "string \<Rightarrow> (CEntity \<Rightarrow> CEntity) \<Rightarrow> (string \<times> CEntity) list \<Rightarrow> (string \<times> CEntity) list" where
  "modify_component n g [] = []"
| "modify_component n g (kc # rest) =
     (if fst kc = n then (fst kc, g (snd kc)) # rest else kc # modify_component n g rest)"

primrec update_path :: "string list \<Rightarrow> (CEntity \<Rightarrow> CEntity) \<Rightarrow> CEntity \<Rightarrow> CEntity" where
  "update_path [] f e = f e"
| "update_path (n # ns) f e =
     SetComponents (modify_component n (update_path ns f) (m_mapComponents e)) e"

definition update_at :: "(CEntity \<Rightarrow> CEntity) \<Rightarrow> entity_ptr \<Rightarrow> heap \<Rightarrow> heap" where
  "update_at f pc h =
     (case h (fst pc) of None \<Rightarrow> h | Some e \<Rightarrow> h(fst pc \<mapsto> update_path (snd pc) f e))"

subsection \<open>Physics engines\<close>

text \<open>
  A physics engine is external. Of an engine the space uses its identifier, its spatial
  domain test and its container of root entities.
\<close>

record CPhysicsEngine =
  engine_GetId :: string
  IsPointContained :: "CVector3 \<Rightarrow> bool"
  m_tEntities :: "entity_ptr list"

text \<open>
  Modelled from the spec: \<^verbatim>\<open>CPhysicsEngine::AddEntity\<close> and \<^verbatim>\<open>RemoveEntity\<close> are
  implemented by the engines, outside the sources. Adding a root entity puts it into the
  engine's entity set, removing it takes it out.
\<close>

definition engine_AddEntity :: "entity_ptr \<Rightarrow> CPhysicsEngine \<Rightarrow> CPhysicsEngine" where
  "engine_AddEntity pc eng = eng\<lparr>m_tEntities := m_tEntities eng @ [pc]\<rparr>"

definition engine_RemoveEntity :: "entity_ptr \<Rightarrow> CPhysicsEngine \<Rightarrow> CPhysicsEngine" where
  "engine_RemoveEntity pc eng = eng\<lparr>m_tEntities := filter (\<lambda>r. \<not> under pc r) (m_tEntities eng)\<rparr>"

subsection \<open>The space\<close>

text \<open>
  The state of \<^verbatim>\<open>CSpace\<close> and of what it reaches through the simulator: the clock, the
  registry indices (vectors of pointers and the map from type to identifier to pointer),
  the physics engines, the heap of entity objects with the next address the allocator
  hands out (an address is never handed out twice), and the state of the random number
  generator.
\<close>

record 'r CSpace =
  m_unSimulationClock :: UInt32
  m_vecEntities :: "entity_ptr list"
  m_vecRootEntities :: "entity_ptr list"
  m_mapEntitiesPerTypePerId :: "string \<rightharpoonup> (string \<rightharpoonup> entity_ptr)"
  m_vecControllableEntities :: "entity_ptr list"
  m_ptPhysicsEngines :: "CPhysicsEngine list"
  objects :: heap
  next_ptr :: nat
  m_pcRNG :: 'r

text \<open>
  The code outside the sources that the space calls, as parameters: the random number
  generator; the text that inserting a vector, and inserting a string stream object,
  writes to a stream; the factory together with \<^verbatim>\<open>CEntity::Init\<close>, which builds the object
  of a type tag from its identifier and the position and orientation put into its body
  node, or throws; the collision test of an embodied entity; \<^verbatim>\<open>CEntity::Reset\<close>; and the
  phases of a step that the space delegates.
\<close>

record 'r collaborators =
  RNG :: "'r CRNG"
  Vector3_text :: "CVector3 \<Rightarrow> string"
  stream_object_text :: string
  CFactory_New_Init :: "string \<Rightarrow> string \<Rightarrow> CVector3 \<Rightarrow> CVector3 \<Rightarrow> CARGoSException + CEntity"
  IsCollidingWithSomething :: "'r CSpace \<Rightarrow> entity_ptr \<Rightarrow> bool"
  EntityReset :: "CEntity \<Rightarrow> CEntity"
  UpdateControllableEntitiesAct :: "'r CSpace \<Rightarrow> (unit, 'r CSpace) outcome"
  UpdatePhysics :: "'r CSpace \<Rightarrow> (unit, 'r CSpace) outcome"
  UpdateMedia :: "'r CSpace \<Rightarrow> (unit, 'r CSpace) outcome"
  PreStep :: "'r CSpace \<Rightarrow> (unit, 'r CSpace) outcome"
  UpdateControllableEntitiesSenseStep :: "'r CSpace \<Rightarrow> (unit, 'r CSpace) outcome"
  PostStep :: "'r CSpace \<Rightarrow> (unit, 'r CSpace) outcome"

subsection \<open>Reset\<close>

text \<open>
  \<^verbatim>\<open>CSpace::Reset\<close>: the clock is set to 0 and \<^verbatim>\<open>Reset\<close> is called on the object of every
  entry of \<^verbatim>\<open>m_vecEntities\<close>, in order. The loop index of the source is a \<^verbatim>\<open>UInt32\<close>; the
  vector is taken to have fewer than \<open>2^32\<close> entries.
\<close>

definition Reset :: "'r collaborators \<Rightarrow> 'r CSpace \<Rightarrow> 'r CSpace" where
  "Reset x s =
     fold (\<lambda>pc s'. s'\<lparr>objects := update_at (EntityReset x) pc (objects s')\<rparr>)
       (m_vecEntities s) (s\<lparr>m_unSimulationClock := 0\<rparr>)"

subsection \<open>One simulation step\<close>

text \<open>
  The phases of a step. To state their order the step is run on a state paired with a
  log of events: a phase logs that it begins, runs, and logs that it is complete. A phase
  that throws ends the step there.
\<close>

datatype phase =
    Phase_IncreaseSimulationClock
  | Phase_Act
  | Phase_Physics
  | Phase_Media
  | Phase_PreStep
  | Phase_SenseStep
  | Phase_PostStep

datatype event = Begins phase | Completes phase

definition run_phase ::
  "phase \<Rightarrow> ('s \<Rightarrow> (unit, 's) outcome) \<Rightarrow> (unit, 's \<times> event list) outcome
     \<Rightarrow> (unit, 's \<times> event list) outcome" where
  "run_phase ph f before =
     (case before of
        Throw ex st \<Rightarrow> Throw ex st
      | Done _ (s, evs) \<Rightarrow>
          (case f s of
             Done _ s' \<Rightarrow> Done () (s', evs @ [Begins ph, Completes ph])
           | Throw ex s' \<Rightarrow> Throw ex (s', evs @ [Begins ph])))"

text \<open>
  Modelled from the spec: \<^verbatim>\<open>IncreaseSimulationClock\<close> is declared in \<^verbatim>\<open>space.h\<close>, outside
  the sources; it advances the tick counter by one.
\<close>

definition IncreaseSimulationClock :: "'r CSpace \<Rightarrow> (unit, 'r CSpace) outcome" where
  "IncreaseSimulationClock s = Done () (s\<lparr>m_unSimulationClock := m_unSimulationClock s + 1\<rparr>)"

text \<open>\<^verbatim>\<open>CSpace::Update\<close>; the flushing of the logs at its end has no effect on the state.\<close>

definition Update ::
  "'r collaborators \<Rightarrow> 'r CSpace \<times> event list \<Rightarrow> (unit, 'r CSpace \<times> event list) outcome" where
  "Update x st =
     run_phase Phase_PostStep (PostStep x)
       (run_phase Phase_SenseStep (UpdateControllableEntitiesSenseStep x)
          (run_phase Phase_PreStep (PreStep x)
             (run_phase Phase_Media (UpdateMedia x)
                (run_phase Phase_Physics (UpdatePhysics x)
                   (run_phase Phase_Act (UpdateControllableEntitiesAct x)
                      (run_phase Phase_IncreaseSimulationClock IncreaseSimulationClock
                         (Done () st)))))))"

text \<open>The events of a complete step, in order.\<close>

definition step_events :: "event list" where
  "step_events =
     [Begins Phase_IncreaseSimulationClock, Completes Phase_IncreaseSimulationClock,
      Begins Phase_Act, Completes Phase_Act,
      Begins Phase_Physics, Completes Phase_Physics,
      Begins Phase_Media, Completes Phase_Media,
      Begins Phase_PreStep, Completes Phase_PreStep,
      Begins Phase_SenseStep, Completes Phase_SenseStep,
      Begins Phase_PostStep, Completes Phase_PostStep]"

subsection \<open>Controllable entities\<close>

definition AddControllableEntity :: "entity_ptr \<Rightarrow> 'r CSpace \<Rightarrow> 'r CSpace" where
  "AddControllableEntity c_entity s =
     s\<lparr>m_vecControllableEntities := m_vecControllableEntities s @ [c_entity]\<rparr>"

definition RemoveControllableEntity :: "entity_ptr \<Rightarrow> 'r CSpace \<Rightarrow> 'r CSpace" where
  "RemoveControllableEntity c_entity s =
     s\<lparr>m_vecControllableEntities := remove1 c_entity (m_vecControllableEntities s)\<rparr>"


subsection \<open>Assigning an embodied entity to its physics engines\<close>

text \<open>The loop that walks from an entity to its topmost ancestor.\<close>

function GetRootEntity :: "entity_ptr \<Rightarrow> entity_ptr" where
  "GetRootEntity pcToAdd =
     (if HasParent pcToAdd then GetRootEntity (GetParent pcToAdd) else pcToAdd)"
  by pat_completeness auto
termination
  by (relation "measure (\<lambda>pc. length (snd pc))") (auto simp: HasParent_def GetParent_def)

declare GetRootEntity.simps [simp del]

text \<open>The engines whose domain contains a point, as positions in the vector of engines, in its order.\<close>

definition potential_engines :: "CPhysicsEngine list \<Rightarrow> CVector3 \<Rightarrow> nat list" where
  "potential_engines engines cPos =
     filter (\<lambda>i. IsPointContained (engines ! i) cPos) [0 ..< length engines]"

definition AddEntity_at :: "entity_ptr \<Rightarrow> nat \<Rightarrow> 'r CSpace \<Rightarrow> 'r CSpace" where
  "AddEntity_at pcToAdd i s =
     s\<lparr>m_ptPhysicsEngines :=
         (m_ptPhysicsEngines s)[i := engine_AddEntity pcToAdd (m_ptPhysicsEngines s ! i)]\<rparr>"

definition no_engine_exception :: "string \<Rightarrow> CARGoSException" where
  "no_engine_exception str_id =
     CARGoSException (''No physics engine can house entity '' @ dquoted str_id @ ''.'')"

text \<open>
  The text that the source collects in the string stream \<^verbatim>\<open>ossEngines\<close>: the identifiers
  of the engines that matched, each between double quotes, separated by a comma and a space.
\<close>

definition ossEngines_buffer :: "string list \<Rightarrow> string" where
  "ossEngines_buffer ids =
     (case ids of
        [] \<Rightarrow> []
      | id0 # rest \<Rightarrow> dquoted id0 @ concat (map (\<lambda>i. '', '' @ dquoted i) rest))"

text \<open>
  The last operand the source streams into the message is the object \<^verbatim>\<open>ossEngines\<close>
  itself, not \<^verbatim>\<open>ossEngines.str()\<close>. No inserter of the standard library writes the buffer of
  a stream that is inserted into another: where the statement compiles, the object is
  converted to a pointer and its address is written. The text written is the parameter
  \<open>stream_object_text\<close>; it does not depend on the buffer.
\<close>

definition insert_stream_object :: "'r collaborators \<Rightarrow> string \<Rightarrow> string" where
  "insert_stream_object x buffer = stream_object_text x"

definition multiple_engines_exception :: "'r collaborators \<Rightarrow> string \<Rightarrow> string \<Rightarrow> CARGoSException" where
  "multiple_engines_exception x str_id ossEngines =
     CARGoSException
       (''Multiple engines can house '' @ dquoted str_id
          @ '', but a movable entity and can only be added to a single engine. Conflicting engines: ''
          @ insert_stream_object x ossEngines)"

text \<open>
  \<^verbatim>\<open>CSpace::AddEntityToPhysicsEngine\<close>. The argument is a reference in the source; a
  pointer that points to no object has no defined behaviour, which is the result \<open>None\<close>.
\<close>

definition AddEntityToPhysicsEngine ::
  "'r collaborators \<Rightarrow> entity_ptr \<Rightarrow> 'r CSpace \<Rightarrow> (unit, 'r CSpace) outcome option" where
  "AddEntityToPhysicsEngine x c_entity s =
     (case deref (objects s) c_entity of
        None \<Rightarrow> None
      | Some embodied \<Rightarrow>
     (case deref (objects s) (GetRootEntity c_entity) of
        None \<Rightarrow> None
      | Some root_entity \<Rightarrow>
          Some
            (let pcToAdd = GetRootEntity c_entity;
                 cPos = m_cPosition embodied;
                 vecPotentialEngines = potential_engines (m_ptPhysicsEngines s) cPos
             in if vecPotentialEngines = []
                then Throw (no_engine_exception (m_strId root_entity)) s
                else if \<not> m_bMovable embodied
                then Done () (fold (AddEntity_at pcToAdd) vecPotentialEngines s)
                else if length vecPotentialEngines = 1
                then Done () (AddEntity_at pcToAdd (vecPotentialEngines ! 0) s)
                else Throw
                  (multiple_engines_exception x (m_strId embodied)
                     (ossEngines_buffer
                        (map (\<lambda>i. engine_GetId (m_ptPhysicsEngines s ! i)) vecPotentialEngines)))
                  s)))"


section \<open>Distributing entities\<close>

subsection \<open>The configuration of a distribute directive\<close>

text \<open>
  The configuration tree and its parser are outside the sources. A node is given as the
  values its attributes parse to; an attribute that a method does not read is ignored,
  and the failures of the parser are not part of the model.
\<close>

record generator_node =
  attr_method :: string
  attr_min :: CVector3
  attr_max :: CVector3
  attr_mean :: CVector3
  attr_std_dev :: CVector3
  attr_values :: CVector3
  attr_center :: CVector3
  attr_distances :: CVector3
  attr_layout :: "UInt32 \<times> UInt32 \<times> UInt32"

text \<open>
  The \<^verbatim>\<open>entity\<close> node: its attributes, and of its first child, if it has one, the tag
  (\<^verbatim>\<open>Value()\<close>) and the \<^verbatim>\<open>id\<close> attribute.
\<close>

record distribute_node =
  node_position :: generator_node
  node_orientation :: generator_node
  attr_quantity :: UInt32
  attr_max_trials :: UInt32
  attr_base_num :: "UInt64 option"
  node_entity :: "(string \<times> string) option"

definition uniform_bounds_exception :: "'r collaborators \<Rightarrow> CVector3 \<Rightarrow> CVector3 \<Rightarrow> CARGoSException" where
  "uniform_bounds_exception x cMin cMax =
     CARGoSException
       (''Uniform generator: the min is not less than or equal to max: ''
          @ Vector3_text x cMin @ '' / '' @ Vector3_text x cMax)"

definition unknown_method_exception :: "string \<Rightarrow> CARGoSException" where
  "unknown_method_exception strMethod =
     CARGoSException (''Unknown distribution method '' @ dquoted strMethod)"

definition CreateGenerator ::
  "'r collaborators \<Rightarrow> generator_node \<Rightarrow> CARGoSException + RealNumberGenerator" where
  "CreateGenerator x t_tree =
     (if attr_method t_tree = ''uniform''
      then (if \<not> vec_le (attr_min t_tree) (attr_max t_tree)
            then Inl (uniform_bounds_exception x (attr_min t_tree) (attr_max t_tree))
            else Inr (UniformGenerator (attr_min t_tree) (attr_max t_tree)))
      else if attr_method t_tree = ''gaussian''
      then Inr (GaussianGenerator (attr_mean t_tree) (attr_std_dev t_tree))
      else if attr_method t_tree = ''constant''
      then Inr (ConstantGenerator (attr_values t_tree))
      else if attr_method t_tree = ''grid''
      then GridGenerator_new (attr_center t_tree) (attr_layout t_tree) (attr_distances t_tree)
      else Inl (unknown_method_exception (attr_method t_tree)))"

subsection \<open>Finding the embodied or positional part of an entity\<close>

text \<open>
  \<^verbatim>\<open>GetEmbodiedEntity\<close> and \<^verbatim>\<open>GetPositionalEntity\<close>: the entity itself if the cast
  succeeds, else the component \<^verbatim>\<open>body\<close> (\<^verbatim>\<open>position\<close>) of a composable entity, else
  \<^verbatim>\<open>NULL\<close>, which is \<open>None\<close>. An embodied entity is a positional entity.
\<close>

definition GetEmbodiedEntity :: "heap \<Rightarrow> entity_ptr \<Rightarrow> entity_ptr option" where
  "GetEmbodiedEntity h pc_entity =
     (case deref h pc_entity of
        None \<Rightarrow> None
      | Some e \<Rightarrow>
          if m_class e = CEmbodiedEntity_class then Some pc_entity
          else if m_class e = CComposableEntity_class
          then (if HasComponent e ''body''
                then Some (fst pc_entity, snd pc_entity @ [''body''])
                else None)
          else None)"

definition GetPositionalEntity :: "heap \<Rightarrow> entity_ptr \<Rightarrow> entity_ptr option" where
  "GetPositionalEntity h pc_entity =
     (case deref h pc_entity of
        None \<Rightarrow> None
      | Some e \<Rightarrow>
          if m_class e = CPositionalEntity_class \<or> m_class e = CEmbodiedEntity_class
          then Some pc_entity
          else if m_class e = CComposableEntity_class
          then (if HasComponent e ''position''
                then Some (fst pc_entity, snd pc_entity @ [''position''])
                else None)
          else None)"

subsection \<open>Adding an entity to the space and removing it\<close>

text \<open>
  Modelled from the spec: the add and remove operations of the registry are declared in
  \<^verbatim>\<open>space.h\<close>, outside the sources. Adding inserts the entity into the flat list and the
  type and identifier map, into the root list if it has no parent and into the
  controllable list if it is controllable. Removing is the inverse; it also removes
  whatever the entity owns, so every pointer to the entity or into its subtree leaves
  every index.
\<close>

definition submap :: "(string \<rightharpoonup> (string \<rightharpoonup> entity_ptr)) \<Rightarrow> string \<Rightarrow> (string \<rightharpoonup> entity_ptr)" where
  "submap m str_type = (case m str_type of None \<Rightarrow> Map.empty | Some sub \<Rightarrow> sub)"

definition AddEntity :: "entity_ptr \<Rightarrow> CEntity \<Rightarrow> 'r CSpace \<Rightarrow> 'r CSpace" where
  "AddEntity pc e s =
     (let s1 = s\<lparr>m_vecEntities := m_vecEntities s @ [pc],
                 m_mapEntitiesPerTypePerId :=
                   (m_mapEntitiesPerTypePerId s)
                     (GetTypeDescription e \<mapsto>
                        (submap (m_mapEntitiesPerTypePerId s) (GetTypeDescription e))(m_strId e \<mapsto> pc))\<rparr>;
          s2 = (if \<not> HasParent pc
                then s1\<lparr>m_vecRootEntities := m_vecRootEntities s1 @ [pc]\<rparr>
                else s1)
      in if m_class e = CControllableEntity_class then AddControllableEntity pc s2 else s2)"

definition prune :: "entity_ptr \<Rightarrow> (string \<rightharpoonup> entity_ptr) \<Rightarrow> (string \<rightharpoonup> entity_ptr)" where
  "prune pc sub =
     (\<lambda>str_id. case sub str_id of None \<Rightarrow> None | Some r \<Rightarrow> if under pc r then None else Some r)"

definition RemoveEntity :: "entity_ptr \<Rightarrow> 'r CSpace \<Rightarrow> 'r CSpace" where
  "RemoveEntity pc s =
     s\<lparr>m_vecEntities := filter (\<lambda>r. \<not> under pc r) (m_vecEntities s),
       m_vecRootEntities := filter (\<lambda>r. \<not> under pc r) (m_vecRootEntities s),
       m_mapEntitiesPerTypePerId := (\<lambda>str_type. map_option (prune pc) (m_mapEntitiesPerTypePerId s str_type)),
       m_vecControllableEntities := filter (\<lambda>r. \<not> under pc r) (m_vecControllableEntities s)\<rparr>"

text \<open>
  Modelled from the spec: the entity operations \<^verbatim>\<open>CSpaceOperationAddEntity\<close> and
  \<^verbatim>\<open>CSpaceOperationRemoveEntity\<close> are registered per entity type, outside the sources. An
  entity that is embodied, or has an embodied body, is added to the registry and to a
  physics engine; any other entity is added to the registry. Removing takes the entity
  out of the registry and of every engine and destroys a root object.
\<close>

definition CSpaceOperationAddEntity ::
  "'r collaborators \<Rightarrow> entity_ptr \<Rightarrow> 'r CSpace \<Rightarrow> (unit, 'r CSpace) outcome option" where
  "CSpaceOperationAddEntity x pc s =
     (case deref (objects s) pc of
        None \<Rightarrow> None
      | Some e \<Rightarrow>
          (case GetEmbodiedEntity (objects s) pc of
             None \<Rightarrow> Some (Done () (AddEntity pc e s))
           | Some pcEmbodied \<Rightarrow> AddEntityToPhysicsEngine x pcEmbodied (AddEntity pc e s)))"

definition CSpaceOperationRemoveEntity :: "entity_ptr \<Rightarrow> 'r CSpace \<Rightarrow> 'r CSpace" where
  "CSpaceOperationRemoveEntity pc s =
     (let s1 = RemoveEntity pc s;
          s2 = s1\<lparr>m_ptPhysicsEngines := map (engine_RemoveEntity pc) (m_ptPhysicsEngines s1)\<rparr>
      in if HasParent pc then s2 else s2\<lparr>objects := (objects s2)(fst pc := None)\<rparr>)"

subsection \<open>The placement loop\<close>

definition cannot_distribute_exception :: "string \<Rightarrow> CARGoSException" where
  "cannot_distribute_exception str_type =
     CARGoSException
       (''Cannot distribute entities that are not positional nor embodied, and ''
          @ dquoted str_type @ '' is neither.'')"

definition max_trials_exception :: "string \<Rightarrow> string \<Rightarrow> UInt32 \<Rightarrow> CARGoSException" where
  "max_trials_exception str_type strBaseId i =
     CARGoSException
       (''Exceeded max trials when trying to distribute objects of type '' @ str_type
          @ '' with base id '' @ dquoted strBaseId
          @ ''. I managed to place only '' @ ToString (unat i) @ '' objects.'')"

definition no_entity_exception :: CARGoSException where
  "no_entity_exception = CARGoSException ''No entity to distribute specified.''"

text \<open>
  What the placement loop works on: the position generator, the orientation generator
  and the space.
\<close>

type_synonym 'r dstate = "RealNumberGenerator \<times> RealNumberGenerator \<times> 'r CSpace"

text \<open>
  The body of the \<^verbatim>\<open>do ... while(!bDone)\<close> loop, for the copy with index \<open>i\<close> and
  identifier \<open>str_id\<close>. It takes \<^verbatim>\<open>unTrials\<close> and \<^verbatim>\<open>bRetry\<close> and returns \<^verbatim>\<open>bDone\<close>,
  \<^verbatim>\<open>unTrials\<close> and \<^verbatim>\<open>bRetry\<close> as the iteration leaves them. \<^verbatim>\<open>bDone\<close> is false when an
  iteration starts. The factory creates the object at the next address; the entity gets
  the identifier that the source has put into its configuration tree.
\<close>

definition trial_body ::
  "'r collaborators \<Rightarrow> string \<Rightarrow> string \<Rightarrow> string \<Rightarrow> UInt32 \<Rightarrow> UInt32 \<Rightarrow> UInt32 \<times> bool
     \<Rightarrow> 'r dstate \<Rightarrow> (bool \<times> UInt32 \<times> bool, 'r dstate) outcome option" where
  "trial_body x str_type str_id strBaseId unMaxTrials i vars st =
     (case vars of (unTrials, bRetry) \<Rightarrow> case st of (pg, og, s) \<Rightarrow>
      let pcEntity = (next_ptr s, []);
          s0 = s\<lparr>next_ptr := Suc (next_ptr s)\<rparr>
      in
      case operator_call (RNG x) pg bRetry (m_pcRNG s0) of
        Inl ex \<Rightarrow> Some (Throw ex (pg, og, s0))
      | Inr (cPosition, pg', r1) \<Rightarrow>
      case operator_call (RNG x) og bRetry r1 of
        Inl ex \<Rightarrow> Some (Throw ex (pg', og, s0\<lparr>m_pcRNG := r1\<rparr>))
      | Inr (cOrientation, og', r2) \<Rightarrow>
      case CFactory_New_Init x str_type str_id cPosition cOrientation of
        Inl ex \<Rightarrow> Some (Throw ex (pg', og', s0\<lparr>m_pcRNG := r2\<rparr>))
      | Inr e \<Rightarrow>
      let s1 = s0\<lparr>m_pcRNG := r2, objects := (objects s0)(fst pcEntity \<mapsto> SetId str_id e)\<rparr>
      in
      case GetEmbodiedEntity (objects s1) pcEntity of
        None \<Rightarrow>
          (case GetPositionalEntity (objects s1) pcEntity of
             None \<Rightarrow> Some (Throw (cannot_distribute_exception str_type) (pg', og', s1))
           | Some pcPositionalEntity \<Rightarrow>
               (case CSpaceOperationAddEntity x pcEntity s1 of
                  None \<Rightarrow> None
                | Some (Throw ex s2) \<Rightarrow> Some (Throw ex (pg', og', s2))
                | Some (Done u s2) \<Rightarrow> Some (Done (False, unTrials, bRetry) (pg', og', s2))))
      | Some pcEmbodiedEntity \<Rightarrow>
          (case CSpaceOperationAddEntity x pcEntity s1 of
             None \<Rightarrow> None
           | Some (Throw ex s2) \<Rightarrow> Some (Throw ex (pg', og', s2))
           | Some (Done u s2) \<Rightarrow>
               if IsCollidingWithSomething x s2 pcEmbodiedEntity
               then (let s3 = CSpaceOperationRemoveEntity pcEntity s2;
                         unTrials' = unTrials + 1
                     in if unTrials' > unMaxTrials
                        then Some (Throw (max_trials_exception str_type strBaseId i) (pg', og', s3))
                        else Some (Done (False, unTrials', True) (pg', og', s3)))
               else Some (Done (True, unTrials, bRetry) (pg', og', s2))))"

text \<open>
  The \<^verbatim>\<open>do ... while(!bDone)\<close> loop. Nothing bounds it but the exceptions of its body,
  so it is a partial function: \<open>None\<close> is a loop that does not end.
\<close>

partial_function (option) place_entity ::
  "'r collaborators \<Rightarrow> string \<Rightarrow> string \<Rightarrow> string \<Rightarrow> UInt32 \<Rightarrow> UInt32 \<Rightarrow> UInt32 \<times> bool
     \<Rightarrow> 'r dstate \<Rightarrow> (unit, 'r dstate) outcome option" where
  "place_entity x str_type str_id strBaseId unMaxTrials i vars st =
     (case trial_body x str_type str_id strBaseId unMaxTrials i vars st of
        None \<Rightarrow> None
      | Some (Throw ex st') \<Rightarrow> Some (Throw ex st')
      | Some (Done (bDone, vars') st') \<Rightarrow>
          if bDone then Some (Done () st')
          else place_entity x str_type str_id strBaseId unMaxTrials i vars' st')"

text \<open>
  The identifier of the copy with index \<open>i\<close>: the base identifier followed by
  \<^verbatim>\<open>ToString(i+unBaseNum)\<close>, where the sum is one of 64 bits.
\<close>

definition copy_id :: "string \<Rightarrow> UInt64 \<Rightarrow> UInt32 \<Rightarrow> string" where
  "copy_id strBaseId unBaseNum i = strBaseId @ ToString (unat (ucast i + unBaseNum))"

text \<open>The loop \<^verbatim>\<open>for(UInt32 i = 0; i < unQuantity; ++i)\<close>, from \<open>i\<close> on.\<close>

lemma unat_succ_less: "i < q \<Longrightarrow> unat (i + 1) = Suc (unat i)" for i q :: "'a::len word"
proof -
  assume "i < q"
  then have a: "unat i < unat q" by (simp add: word_less_nat_alt)
  have b: "unat q < 2 ^ LENGTH('a)" by (rule unsigned_less)
  have "Suc (unat i) < 2 ^ LENGTH('a)" using a b by linarith
  then have "unat i + unat (1 :: 'a word) < 2 ^ LENGTH('a)" by simp
  then have "unat (i + 1) = unat i + unat (1 :: 'a word)" by (simp only: unat_add_lem)
  then show ?thesis by simp
qed

function Distribute_loop ::
  "'r collaborators \<Rightarrow> string \<Rightarrow> string \<Rightarrow> UInt64 \<Rightarrow> UInt32 \<Rightarrow> UInt32 \<Rightarrow> UInt32
     \<Rightarrow> 'r dstate \<Rightarrow> (unit, 'r dstate) outcome option" where
  "Distribute_loop x str_type strBaseId unBaseNum unMaxTrials unQuantity i st =
     (if i < unQuantity
      then (case place_entity x str_type (copy_id strBaseId unBaseNum i)
                   strBaseId unMaxTrials i (0, False) st of
              None \<Rightarrow> None
            | Some (Throw ex st') \<Rightarrow> Some (Throw ex st')
            | Some (Done u st') \<Rightarrow>
                Distribute_loop x str_type strBaseId unBaseNum unMaxTrials unQuantity (i + 1) st')
      else Some (Done () st))"
  by pat_completeness auto
termination
  by (relation "measure (\<lambda>(x, str_type, strBaseId, unBaseNum, unMaxTrials, unQuantity, i, st).
                            unat unQuantity - unat i)")
     (auto simp: unat_succ_less word_less_nat_alt)

declare Distribute_loop.simps [simp del]

text \<open>
  \<^verbatim>\<open>CSpace::Distribute\<close>: the generators are created, the first child of the entity node
  is looked up, the copies are placed; an exception thrown on the way is caught and thrown
  again inside another. The generators are local to the call.
\<close>

text \<open>The attribute \<^verbatim>\<open>base_num\<close> is optional; its default is 0.\<close>

definition base_num :: "distribute_node \<Rightarrow> UInt64" where
  "base_num t_tree = (case attr_base_num t_tree of None \<Rightarrow> 0 | Some unBaseNum \<Rightarrow> unBaseNum)"

definition Distribute_try ::
  "'r collaborators \<Rightarrow> distribute_node \<Rightarrow> 'r CSpace \<Rightarrow> (unit, 'r CSpace) outcome option" where
  "Distribute_try x t_tree s =
     (case CreateGenerator x (node_position t_tree) of
        Inl ex \<Rightarrow> Some (Throw ex s)
      | Inr pcPositionGenerator \<Rightarrow>
     (case CreateGenerator x (node_orientation t_tree) of
        Inl ex \<Rightarrow> Some (Throw ex s)
      | Inr pcOrientationGenerator \<Rightarrow>
     (case node_entity t_tree of
        None \<Rightarrow> Some (Throw no_entity_exception s)
      | Some (str_type, strBaseId) \<Rightarrow>
     (case Distribute_loop x str_type strBaseId (base_num t_tree)
             (attr_max_trials t_tree) (attr_quantity t_tree) 0
             (pcPositionGenerator, pcOrientationGenerator, s) of
        None \<Rightarrow> None
      | Some (Throw ex (pg, og, s')) \<Rightarrow> Some (Throw ex s')
      | Some (Done u (pg, og, s')) \<Rightarrow> Some (Done () s')))))"

definition Distribute ::
  "'r collaborators \<Rightarrow> distribute_node \<Rightarrow> 'r CSpace \<Rightarrow> (unit, 'r CSpace) outcome option" where
  "Distribute x t_tree s =
     (case Distribute_try x t_tree s of
        None \<Rightarrow> None
      | Some (Throw ex s') \<Rightarrow>
          Some (Throw (CARGoSException_Nested ''Error while trying to distribute entities'' ex) s')
      | Some (Done u s') \<Rightarrow> Some (Done () s'))"


section \<open>The tag equipped entity\<close>

text \<open>
  An instance of \<^verbatim>\<open>CTagEquippedEntity\<close> holds a tag, the anchor it is attached to (by
  name) and the offsets from the anchor. Of a tag the entity uses its payload.
\<close>

record CTagEntity =
  m_strPayload :: string

record SInstance =
  Tag :: CTagEntity
  Anchor :: string
  PositionOffset :: CVector3
  OrientationOffset :: CVector3

text \<open>
  Modelled from the spec: \<^verbatim>\<open>CTagEntity::SetPayload\<close> is declared in \<^verbatim>\<open>tag_entity.h\<close>,
  outside the sources; it stores the payload of the tag.
\<close>

definition SetPayload :: "string \<Rightarrow> CTagEntity \<Rightarrow> CTagEntity" where
  "SetPayload str_payload tag = tag\<lparr>m_strPayload := str_payload\<rparr>"

definition payload_size_exception :: "string \<Rightarrow> nat \<Rightarrow> nat \<Rightarrow> CARGoSException" where
  "payload_size_exception str_context_id n_tags n_payloads =
     CARGoSException
       (''CTagEquippedEntity::SetTagPayloads(), id='' @ dquoted str_context_id
          @ '': number of tags ('' @ ToString n_tags
          @ '') does not equal the passed payload vector size ('' @ ToString n_payloads @ '')'')"

text \<open>
  The loop of \<^verbatim>\<open>SetTagPayloads(const std::vector<std::string>&)\<close>, from index \<open>i\<close> on. It
  runs only when both vectors have the same size, so every index it reads is in range.
  The index of the source is a \<^verbatim>\<open>UInt32\<close>; the vectors are taken to have fewer than
  \<open>2^32\<close> entries.
\<close>

function SetTagPayloads_loop :: "nat \<Rightarrow> string list \<Rightarrow> SInstance list \<Rightarrow> SInstance list" where
  "SetTagPayloads_loop i vec_payloads m_vecInstances =
     (if i < length vec_payloads
      then SetTagPayloads_loop (i + 1) vec_payloads
             (m_vecInstances
                [i := (m_vecInstances ! i)\<lparr>Tag := SetPayload (vec_payloads ! i) (Tag (m_vecInstances ! i))\<rparr>])
      else m_vecInstances)"
  by pat_completeness auto
termination
  by (relation "measure (\<lambda>(i, vec_payloads, m_vecInstances). length vec_payloads - i)") auto

declare SetTagPayloads_loop.simps [simp del]

text \<open>
  \<^verbatim>\<open>SetTagPayloads\<close> for a vector of payloads; \<open>str_context_id\<close> is \<^verbatim>\<open>GetContext() + GetId()\<close>
  of the entity.
\<close>

definition SetTagPayloads ::
  "string \<Rightarrow> string list \<Rightarrow> SInstance list \<Rightarrow> (unit, SInstance list) outcome" where
  "SetTagPayloads str_context_id vec_payloads m_vecInstances =
     (if length vec_payloads = length m_vecInstances
      then Done () (SetTagPayloads_loop 0 vec_payloads m_vecInstances)
      else Throw
        (payload_size_exception str_context_id (length m_vecInstances) (length vec_payloads))
        m_vecInstances)"

text \<open>An instance for examples: a tag with a payload, attached to the anchor \<^verbatim>\<open>origin\<close>.\<close>

definition tag0 :: "string \<Rightarrow> SInstance" where
  "tag0 p = \<lparr>Tag = \<lparr>m_strPayload = p\<rparr>, Anchor = ''origin'',
             PositionOffset = CVector3 0 0 0, OrientationOffset = CVector3 0 0 0\<rparr>"


section \<open>An example scene\<close>

text \<open>
  Collaborators and scenes that can be run, for the instances below. The factory knows
  a movable box and an immovable wall (embodied), a foot-bot (composable, with an
  embodied body) and a light (positional, not embodied).
\<close>

definition factory0 :: "string \<Rightarrow> string \<Rightarrow> CVector3 \<Rightarrow> CVector3 \<Rightarrow> CARGoSException + CEntity" where
  "factory0 str_type str_id cPosition cOrientation =
     (if str_type = ''box''
      then Inr (CEntity str_id ''box'' CEmbodiedEntity_class cPosition cOrientation True [])
      else if str_type = ''wall''
      then Inr (CEntity str_id ''wall'' CEmbodiedEntity_class cPosition cOrientation False [])
      else if str_type = ''foot-bot''
      then Inr (CEntity str_id ''foot-bot'' CComposableEntity_class (CVector3 0 0 0) (CVector3 0 0 0) False
                  [(''body'', CEntity ''body'' ''body'' CEmbodiedEntity_class cPosition cOrientation True [])])
      else if str_type = ''light''
      then Inr (CEntity str_id ''light'' CPositionalEntity_class cPosition cOrientation False [])
      else Inl (CARGoSException (''Symbol '' @ dquoted str_type @ '' not found'')))"

definition env0 :: "nat collaborators" where
  "env0 =
     \<lparr>RNG = rng0,
      Vector3_text = (\<lambda>v. ''<vector>''),
      stream_object_text = ''0x7ffd5c3ab1e0'',
      CFactory_New_Init = factory0,
      IsCollidingWithSomething = (\<lambda>s b. False),
      EntityReset = (\<lambda>e. e),
      UpdateControllableEntitiesAct = (\<lambda>s. Done () s),
      UpdatePhysics = (\<lambda>s. Done () s),
      UpdateMedia = (\<lambda>s. Done () s),
      PreStep = (\<lambda>s. Done () s),
      UpdateControllableEntitiesSenseStep = (\<lambda>s. Done () s),
      PostStep = (\<lambda>s. Done () s)\<rparr>"

text \<open>Two engines that split the arena at \<open>x = 0\<close>, and two whose domains overlap on \<open>-1 \<le> x \<le> 1\<close>.\<close>

definition engine_west :: CPhysicsEngine where
  "engine_west = \<lparr>engine_GetId = ''dyn2d_west'', IsPointContained = (\<lambda>v. GetX v < 0), m_tEntities = []\<rparr>"

definition engine_east :: CPhysicsEngine where
  "engine_east = \<lparr>engine_GetId = ''dyn2d_east'', IsPointContained = (\<lambda>v. 0 \<le> GetX v), m_tEntities = []\<rparr>"

definition engine_a :: CPhysicsEngine where
  "engine_a = \<lparr>engine_GetId = ''dyn2d_a'', IsPointContained = (\<lambda>v. - 2 \<le> GetX v \<and> GetX v \<le> 1), m_tEntities = []\<rparr>"

definition engine_b :: CPhysicsEngine where
  "engine_b = \<lparr>engine_GetId = ''dyn2d_b'', IsPointContained = (\<lambda>v. - 1 \<le> GetX v \<and> GetX v \<le> 2), m_tEntities = []\<rparr>"

text \<open>An empty space with the engines given.\<close>

definition empty_space :: "CPhysicsEngine list \<Rightarrow> nat CSpace" where
  "empty_space engines =
     \<lparr>m_unSimulationClock = 0, m_vecEntities = [], m_vecRootEntities = [],
      m_mapEntitiesPerTypePerId = Map.empty, m_vecControllableEntities = [],
      m_ptPhysicsEngines = engines, objects = Map.empty, next_ptr = 0, m_pcRNG = 0\<rparr>"

text \<open>
  The overlapping engines with three objects that are not assigned yet: a movable box
  and an immovable wall at \<open>x = 0\<close>, inside both domains, and a movable box at
  \<open>x = 3/2\<close>, inside the second domain only.
\<close>

definition overlap_space :: "nat CSpace" where
  "overlap_space =
     (empty_space [engine_a, engine_b])
       \<lparr>objects :=
           [0 \<mapsto> CEntity ''box0'' ''box'' CEmbodiedEntity_class (CVector3 0 0 0) (CVector3 0 0 0) True [],
            1 \<mapsto> CEntity ''wall0'' ''wall'' CEmbodiedEntity_class (CVector3 0 0 0) (CVector3 0 0 0) False [],
            2 \<mapsto> CEntity ''box1'' ''box'' CEmbodiedEntity_class (CVector3 (3 / 2) 0 0) (CVector3 0 0 0) True []],
        next_ptr := 3\<rparr>"

text \<open>Generator nodes and directives.\<close>

definition constant_node :: "CVector3 \<Rightarrow> generator_node" where
  "constant_node v =
     \<lparr>attr_method = ''constant'', attr_min = CVector3 0 0 0, attr_max = CVector3 0 0 0,
      attr_mean = CVector3 0 0 0, attr_std_dev = CVector3 0 0 0, attr_values = v,
      attr_center = CVector3 0 0 0, attr_distances = CVector3 0 0 0, attr_layout = (1, 1, 1)\<rparr>"


definition directive ::
  "generator_node \<Rightarrow> UInt32 \<Rightarrow> UInt32 \<Rightarrow> string \<Rightarrow> string \<Rightarrow> distribute_node" where
  "directive position_node quantity max_trials str_type strBaseId =
     \<lparr>node_position = position_node, node_orientation = constant_node (CVector3 0 0 0),
      attr_quantity = quantity, attr_max_trials = max_trials, attr_base_num = None,
      node_entity = Some (str_type, strBaseId)\<rparr>"


section \<open>Invariants and outcomes of a placement\<close>



text \<open>
  The entities for which \<^verbatim>\<open>GetEmbodiedEntity\<close> finds an embodied part: an embodied entity, or
  a composable one with a component \<^verbatim>\<open>body\<close>.
\<close>

definition has_body :: "CEntity \<Rightarrow> bool" where
  "has_body e =
     (m_class e = CEmbodiedEntity_class
      \<or> (m_class e = CComposableEntity_class \<and> HasComponent e ''body''))"

text \<open>
  The embodied part of an entity that is not yet in the space: the entity itself, or
  the component \<^verbatim>\<open>body\<close> of a composable entity.
\<close>

definition body :: "CEntity \<Rightarrow> CEntity option" where
  "body e =
     (if m_class e = CEmbodiedEntity_class then Some e
      else if m_class e = CComposableEntity_class then map_of (m_mapComponents e) ''body''
      else None)"

text \<open>
  The engines whose domain contains the embodied part of an entity, and whether
  \<^verbatim>\<open>AddEntityToPhysicsEngine\<close> accepts it: some engine contains it, and exactly one if it
  is movable.
\<close>

definition housing :: "CPhysicsEngine list \<Rightarrow> CEntity \<Rightarrow> nat list" where
  "housing engines e =
     (case body e of
        None \<Rightarrow> []
      | Some embodied \<Rightarrow> potential_engines engines (m_cPosition embodied))"

definition houses :: "CPhysicsEngine list \<Rightarrow> CEntity \<Rightarrow> bool" where
  "houses engines e =
     (case body e of
        None \<Rightarrow> False
      | Some embodied \<Rightarrow>
          potential_engines engines (m_cPosition embodied) \<noteq> []
        \<and> (m_bMovable embodied \<longrightarrow> length (potential_engines engines (m_cPosition embodied)) = 1))"

text \<open>The engines after the entity \<open>pc\<close> was added to those at the positions \<open>idxs\<close>.\<close>

definition house :: "entity_ptr \<Rightarrow> nat list \<Rightarrow> CPhysicsEngine list \<Rightarrow> CPhysicsEngine list" where
  "house pc idxs engines =
     map (\<lambda>i. if i \<in> set idxs then engine_AddEntity pc (engines ! i) else engines ! i)
       [0 ..< length engines]"






text \<open>
  The space after one trial's \<^verbatim>\<open>CFactory::New\<close>, \<^verbatim>\<open>Init\<close>, \<^verbatim>\<open>SetId\<close> and
  \<^verbatim>\<open>CallEntityOperation<CSpaceOperationAddEntity>\<close> for an entity with an embodied part that
  the engines accept, and after the \<^verbatim>\<open>CSpaceOperationRemoveEntity\<close> that follows a
  collision.
\<close>

definition added :: "'r CSpace \<Rightarrow> 'r \<Rightarrow> string \<Rightarrow> CEntity \<Rightarrow> 'r CSpace" where
  "added s r2 str_id e =
     fold (AddEntity_at (next_ptr s, [])) (housing (m_ptPhysicsEngines s) e)
       (AddEntity (next_ptr s, []) (SetId str_id e)
          (s\<lparr>next_ptr := Suc (next_ptr s), m_pcRNG := r2,
             objects := (objects s)(next_ptr s \<mapsto> SetId str_id e)\<rparr>))"


text \<open>
  The generators that refuse a retry, and the number of calls a generator can still serve.
\<close>

fun is_grid :: "RealNumberGenerator \<Rightarrow> bool" where
  "is_grid (GridGenerator c l d k) = True"
| "is_grid g = False"

fun can_serve :: "RealNumberGenerator \<Rightarrow> nat \<Rightarrow> bool" where
  "can_serve (GridGenerator c (l0, l1, l2) d k) n = (unat k + n \<le> unat (l0 * l1 * l2))"
| "can_serve g n = True"








text \<open>The factory builds, for this type, positional entities that are not embodied.\<close>

definition positional_factory :: "'r collaborators \<Rightarrow> string \<Rightarrow> bool" where
  "positional_factory x str_type =
     (\<forall>str_id cPosition cOrientation.
        \<exists>e. CFactory_New_Init x str_type str_id cPosition cOrientation = Inr e
           \<and> m_class e = CPositionalEntity_class)"



section \<open>Properties of the generators\<close>

subsection \<open>The grid generator\<close>

lemma unat_mult2:
  "unat l0 * unat l1 < 2 ^ 32 \<Longrightarrow> unat ((l0::32 word) * l1) = unat l0 * unat l1"
  using unat_mult_lem[of l0 l1] by simp

lemma unat_mult3:
  assumes "unat l0 * unat l1 * unat l2 < 2 ^ 32" "l2 \<noteq> 0"
  shows "unat ((l0::32 word) * l1) = unat l0 * unat l1"
    and "unat ((l0::32 word) * l1 * l2) = unat l0 * unat l1 * unat l2"
proof -
  have "0 < unat l2" using assms(2) by (simp add: unat_gt_0)
  then have "unat l0 * unat l1 \<le> unat l0 * unat l1 * unat l2" by simp
  then have a: "unat l0 * unat l1 < 2 ^ 32" using assms(1) by linarith
  show b: "unat (l0 * l1) = unat l0 * unat l1" using a by (rule unat_mult2)
  show "unat (l0 * l1 * l2) = unat l0 * unat l1 * unat l2"
    using unat_mult2[of "l0 * l1" l2] assms(1) b by simp
qed

lemma grid_call_ok:
  fixes l0 l1 l2 :: "32 word"
  assumes nz: "l0 \<noteq> 0" "l1 \<noteq> 0" "l2 \<noteq> 0"
      and nov: "cell_count (l0, l1, l2) < 2 ^ 32"
      and k: "k < cell_count (l0, l1, l2)"
  shows "operator_call rng (GridGenerator c (l0, l1, l2) d (of_nat k)) False r =
           Inr (grid_cell c (layout_nat (l0, l1, l2)) d (row_major (layout_nat (l0, l1, l2)) k),
                GridGenerator c (l0, l1, l2) d (of_nat (Suc k)), r)"
proof -
  have N: "unat l0 * unat l1 * unat l2 < 2 ^ 32" using nov by (simp add: cell_count_def)
  have kN: "k < unat l0 * unat l1 * unat l2" using k by (simp add: cell_count_def)
  have k32: "k < 2 ^ 32" using kN N by linarith
  have uk: "unat (of_nat k :: 32 word) = k" using k32 by (simp add: unat_of_nat)
  have m2: "unat (l0 * l1) = unat l0 * unat l1" and m3: "unat (l0 * l1 * l2) = unat l0 * unat l1 * unat l2"
    using unat_mult3[OF N nz(3)] by auto
  have lt: "(of_nat k :: 32 word) < l0 * l1 * l2"
    by (simp add: word_less_nat_alt uk m3 kN)
  have s0: "real (unat (l0 - 1)) = real (unat l0) - 1"
    using nz(1) by (simp add: unat_minus_one unat_gt_0 of_nat_diff Suc_leI)
  have s1: "real (unat (l1 - 1)) = real (unat l1) - 1"
    using nz(2) by (simp add: unat_minus_one unat_gt_0 of_nat_diff Suc_leI)
  have s2: "real (unat (l2 - 1)) = real (unat l2) - 1"
    using nz(3) by (simp add: unat_minus_one unat_gt_0 of_nat_diff Suc_leI)
  have ix: "unat ((of_nat k :: 32 word) mod l0) = k mod unat l0" by (simp add: unat_mod uk)
  have iy: "unat (((of_nat k :: 32 word) div l0) mod l1) = (k div unat l0) mod unat l1"
    by (simp add: unat_mod unat_div uk)
  have iz: "unat ((of_nat k :: 32 word) div (l0 * l1)) = k div (unat l0 * unat l1)"
    by (simp add: unat_div uk m2)
  show ?thesis
    using lt s0 s1 s2 ix iy iz by (simp add: grid_cell_def row_major_def layout_nat_def)
qed

lemma calls_grid:
  fixes l0 l1 l2 :: "32 word"
  assumes nz: "l0 \<noteq> 0" "l1 \<noteq> 0" "l2 \<noteq> 0"
      and nov: "cell_count (l0, l1, l2) < 2 ^ 32"
  shows "a + k \<le> cell_count (l0, l1, l2) \<Longrightarrow>
    calls rng (GridGenerator c (l0, l1, l2) d (of_nat a)) k r =
      Inr (map (\<lambda>j. grid_cell c (layout_nat (l0, l1, l2)) d (row_major (layout_nat (l0, l1, l2)) j)) [a ..< a + k],
           GridGenerator c (l0, l1, l2) d (of_nat (a + k)), r)"
proof (induction k arbitrary: a)
  case 0
  then show ?case by simp
next
  case (Suc k)
  have a: "a < cell_count (l0, l1, l2)" using Suc.prems by simp
  have step: "Suc a + k \<le> cell_count (l0, l1, l2)" using Suc.prems by simp
  have u: "[a ..< Suc a + k] = a # [Suc a ..< Suc a + k]" by (simp add: upt_conv_Cons)
  have e: "a + Suc k = Suc a + k" by simp
  let ?f = "\<lambda>j. grid_cell c (layout_nat (l0, l1, l2)) d (row_major (layout_nat (l0, l1, l2)) j)"
  have c1: "operator_call rng (GridGenerator c (l0, l1, l2) d (of_nat a)) False r =
      Inr (?f a, GridGenerator c (l0, l1, l2) d (of_nat (Suc a)), r)"
    by (rule grid_call_ok[OF nz nov a])
  have c2: "calls rng (GridGenerator c (l0, l1, l2) d (of_nat (Suc a))) k r =
      Inr (map ?f [Suc a ..< Suc a + k], GridGenerator c (l0, l1, l2) d (of_nat (Suc a + k)), r)"
    by (rule Suc.IH[OF step])
  have "calls rng (GridGenerator c (l0, l1, l2) d (of_nat a)) (Suc k) r =
      Inr (?f a # map ?f [Suc a ..< Suc a + k], GridGenerator c (l0, l1, l2) d (of_nat (Suc a + k)), r)"
    by (simp only: calls.simps c1 c2 sum.case prod.case)
  then show ?case by (simp only: u e list.map)
qed


lemma calls_grid_state:
  fixes l0 l1 l2 :: "32 word"
  shows "a + k \<le> unat (l0 * l1 * l2) \<Longrightarrow>
    \<exists>vs. calls rng (GridGenerator c (l0, l1, l2) d (of_nat a)) k r =
      Inr (vs, GridGenerator c (l0, l1, l2) d (of_nat (a + k)), r)"
proof (induction k arbitrary: a)
  case 0
  then show ?case by simp
next
  case (Suc k)
  have a: "a < unat (l0 * l1 * l2)" using Suc.prems by simp
  have "unat (l0 * l1 * l2) < 2 ^ 32" using unsigned_less[of "l0 * l1 * l2"] by simp
  then have "unat (of_nat a :: 32 word) = a" using a by (simp add: unat_of_nat)
  then have lt: "(of_nat a :: 32 word) < l0 * l1 * l2" using a by (simp add: word_less_nat_alt)
  have step: "Suc a + k \<le> unat (l0 * l1 * l2)" using Suc.prems by simp
  obtain vs where c2: "calls rng (GridGenerator c (l0, l1, l2) d (of_nat (Suc a))) k r =
      Inr (vs, GridGenerator c (l0, l1, l2) d (of_nat (Suc a + k)), r)"
    using Suc.IH[OF step] by blast
  have e: "(of_nat a :: 32 word) + 1 = of_nat (Suc a)" by simp
  have e2: "a + Suc k = Suc a + k" by simp
  show ?case
    using lt by (simp only: calls.simps operator_call.simps if_False if_True e c2 e2 sum.case prod.case) blast
qed

lemma calls_grid_exhaust:
  fixes l0 l1 l2 :: "32 word"
  assumes nz: "l0 \<noteq> 0" "l1 \<noteq> 0" "l2 \<noteq> 0"
      and nov: "cell_count (l0, l1, l2) < 2 ^ 32"
  shows "a + k = cell_count (l0, l1, l2) \<Longrightarrow>
    calls rng (GridGenerator c (l0, l1, l2) d (of_nat a)) (Suc k) r =
      Inl grid_exhausted_exception"
proof (induction k arbitrary: a)
  case 0
  have "(of_nat a :: 32 word) = l0 * l1 * l2" using 0 by (simp add: cell_count_def)
  then show ?case by simp
next
  case (Suc k)
  have a: "a < cell_count (l0, l1, l2)" using Suc.prems by simp
  have step: "Suc a + k = cell_count (l0, l1, l2)" using Suc.prems by simp
  show ?case
    by (simp only: calls.simps(2)[of rng _ "Suc k"] grid_call_ok[OF nz nov a] Suc.IH[OF step] sum.case prod.case)
qed


text \<open>
  Claim C6, as amended. For a grid generator that was constructed (no layout value is 0)
  and whose cell count \<open>lx * ly * lz\<close> is below \<open>2^32\<close>: \<open>k\<close> calls with
  \<^verbatim>\<open>b_is_retry = false\<close>, for every \<open>k\<close> up to the cell count, return the cells in
  row-major order, the \<open>i\<close>-th call the cell of row-major index \<open>i\<close>; one call more than the
  cell count throws the exhaustion error; a call with \<^verbatim>\<open>b_is_retry = true\<close> throws whatever
  the counter is. Row-major means that the indices \<open>(ix, iy, iz)\<close> of the \<open>j\<close>-th cell are
  within the layout and \<open>j = ix + lx * (iy + ly * iz)\<close>; centred means that a cell and its
  mirror image average to the centre on every axis.
\<close>

theorem grid_generator_row_major:
  assumes new: "GridGenerator_new c l d = Inr g0"
      and nov: "cell_count l < 2 ^ 32"
      and k: "k \<le> cell_count l"
      and j: "j < cell_count l"
  shows "calls rng g0 k r =
           Inr (map (\<lambda>i. grid_cell c (layout_nat l) d (row_major (layout_nat l) i)) [0 ..< k],
                GridGenerator c l d (of_nat k), r)
       \<and> calls rng g0 (Suc (cell_count l)) r =
           Inl grid_exhausted_exception
       \<and> operator_call rng (GridGenerator c l d n) True r =
           Inl (grid_retry_exception n)
       \<and> (case layout_nat l of (lx, ly, lz) \<Rightarrow> case row_major (layout_nat l) j of (ix, iy, iz) \<Rightarrow>
            ix < lx \<and> iy < ly \<and> iz < lz \<and> j = ix + lx * (iy + ly * iz)
            \<and> GetX (grid_cell c (lx, ly, lz) d (ix, iy, iz)) + GetX (grid_cell c (lx, ly, lz) d (lx - 1 - ix, ly - 1 - iy, lz - 1 - iz)) = 2 * GetX c
            \<and> GetY (grid_cell c (lx, ly, lz) d (ix, iy, iz)) + GetY (grid_cell c (lx, ly, lz) d (lx - 1 - ix, ly - 1 - iy, lz - 1 - iz)) = 2 * GetY c
            \<and> GetZ (grid_cell c (lx, ly, lz) d (ix, iy, iz)) + GetZ (grid_cell c (lx, ly, lz) d (lx - 1 - ix, ly - 1 - iy, lz - 1 - iz)) = 2 * GetZ c)"
proof -
  obtain l0 l1 l2 where l: "l = (l0, l1, l2)" by (cases l) auto
  have nz: "l0 \<noteq> 0" "l1 \<noteq> 0" "l2 \<noteq> 0" and g0: "g0 = GridGenerator c (l0, l1, l2) d 0"
    using new by (auto simp: GridGenerator_new_def l split: if_splits)
  have nov': "cell_count (l0, l1, l2) < 2 ^ 32" using nov l by simp
  let ?N = "cell_count (l0, l1, l2)"
  let ?f = "\<lambda>i. grid_cell c (layout_nat (l0, l1, l2)) d (row_major (layout_nat (l0, l1, l2)) i)"
  have run: "\<And>m. m \<le> ?N \<Longrightarrow> calls rng g0 m r = Inr (map ?f [0 ..< m], GridGenerator c (l0, l1, l2) d (of_nat m), r)"
    using calls_grid[OF nz nov', of 0 _ rng c d r] by (simp add: g0)
  have A: "calls rng g0 k r = Inr (map ?f [0 ..< k], GridGenerator c (l0, l1, l2) d (of_nat k), r)"
    using run k l by simp
  have m3: "unat (l0 * l1 * l2) = ?N"
    using unat_mult3(2)[of l0 l1 l2] nov' nz by (simp add: cell_count_def)
  have full: "(of_nat ?N :: 32 word) = l0 * l1 * l2"
    by (simp add: cell_count_def)
  have last: "operator_call rng (GridGenerator c (l0, l1, l2) d (of_nat ?N)) False r =
           Inl grid_exhausted_exception"
    by (simp only: full operator_call.simps if_False less_irrefl)
  have B: "calls rng g0 (Suc ?N) r =
           Inl grid_exhausted_exception"
    using calls_grid_exhaust[OF nz nov', of 0 ?N rng c d r] by (simp add: g0)
  have C: "operator_call rng (GridGenerator c (l0, l1, l2) d n) True r =
           Inl (grid_retry_exception n)"
    by simp
  have pos: "0 < unat l0" "0 < unat l1" "0 < unat l2" using nz by (simp_all add: unat_gt_0)
  have jN: "j < unat l0 * unat l1 * unat l2" using j l by (simp add: cell_count_def)
  have D1: "j mod unat l0 < unat l0" "(j div unat l0) mod unat l1 < unat l1" using pos by simp_all
  have D2: "j div (unat l0 * unat l1) < unat l2"
    using jN pos by (simp add: less_mult_imp_div_less mult.commute)
  have D3: "j = j mod unat l0 + unat l0 * ((j div unat l0) mod unat l1 + unat l1 * (j div (unat l0 * unat l1)))"
    by (simp add: div_mult2_eq)
  have E: "a + (real L - 1) * b / 2 - real i * b + (a + (real L - 1) * b / 2 - real (L - 1 - i) * b) = 2 * a"
    if "i < L" for a b :: real and L i :: nat
  proof -
    have "real (L - 1 - i) = real L - 1 - real i" using that by (simp add: of_nat_diff)
    then show ?thesis by (simp add: algebra_simps)
  qed
  have F: "(case layout_nat l of (lx, ly, lz) \<Rightarrow> case row_major (layout_nat l) j of (ix, iy, iz) \<Rightarrow>
            ix < lx \<and> iy < ly \<and> iz < lz \<and> j = ix + lx * (iy + ly * iz)
            \<and> GetX (grid_cell c (lx, ly, lz) d (ix, iy, iz)) + GetX (grid_cell c (lx, ly, lz) d (lx - 1 - ix, ly - 1 - iy, lz - 1 - iz)) = 2 * GetX c
            \<and> GetY (grid_cell c (lx, ly, lz) d (ix, iy, iz)) + GetY (grid_cell c (lx, ly, lz) d (lx - 1 - ix, ly - 1 - iy, lz - 1 - iz)) = 2 * GetY c
            \<and> GetZ (grid_cell c (lx, ly, lz) d (ix, iy, iz)) + GetZ (grid_cell c (lx, ly, lz) d (lx - 1 - ix, ly - 1 - iy, lz - 1 - iz)) = 2 * GetZ c)"
    unfolding l layout_nat_def row_major_def grid_cell_def prod.case CVector3.sel
    using D1 D2 D3 E[OF D1(1)] E[OF D1(2)] E[OF D2] by blast
  show ?thesis
    using A B C F unfolding l by blast
qed



text \<open>
  The instance of the spec: layout \<open>(2, 1, 1)\<close>, centre \<open>(0, 0, 0)\<close>, distances \<open>(1, 0, 0)\<close>
  gives \<open>(0.5, 0, 0)\<close>, then \<open>(-0.5, 0, 0)\<close>, and the third call throws.
\<close>

theorem grid_generator_row_major_witness:
  "calls rng0 (GridGenerator (CVector3 0 0 0) (2, 1, 1) (CVector3 1 0 0) 0) 2 (0::nat) =
     Inr ([CVector3 (1 / 2) 0 0, CVector3 (- 1 / 2) 0 0],
          GridGenerator (CVector3 0 0 0) (2, 1, 1) (CVector3 1 0 0) 2, 0)
   \<and> calls rng0 (GridGenerator (CVector3 0 0 0) (2, 1, 1) (CVector3 1 0 0) 0) 3 (0::nat) =
       Inl grid_exhausted_exception
   \<and> operator_call rng0 (GridGenerator (CVector3 0 0 0) (2, 1, 1) (CVector3 1 0 0) 0) True (0::nat) =
       Inl (grid_retry_exception 0)"
proof -
  have new: "GridGenerator_new (CVector3 0 0 0) (2, 1, 1) (CVector3 1 0 0) =
      Inr (GridGenerator (CVector3 0 0 0) (2, 1, 1) (CVector3 1 0 0) 0)"
    by (simp add: GridGenerator_new_def)
  have cc: "cell_count (2, 1, 1) = 2" by (simp add: cell_count_def)
  have nov: "cell_count (2, 1, 1) < 2 ^ 32" by (simp add: cc)
  have k: "2 \<le> cell_count (2, 1, 1)" and j: "0 < cell_count (2, 1, 1)" by (simp_all add: cc)
  have u: "[0 ..< 2] = [0, Suc 0]" by (simp add: upt_rec)
  have three: "Suc (cell_count (2, 1, 1)) = 3" by (simp add: cc)
  show ?thesis
    using grid_generator_row_major[OF new nov k j, of rng0 0 0]
    by (simp add: three u grid_cell_def row_major_def layout_nat_def del: calls.simps operator_call.simps)
qed


text \<open>
  Where the claim fails as stated: the layout \<open>(65536, 65537, 3)\<close>. In 32 bits,
  \<open>65536 * 65537\<close> is \<open>65536\<close> and the cell count is \<open>196608\<close>. After 65536 calls the
  generator returns a cell with \<open>z\<close> index 1 (coordinate 0), where the row-major cell of
  index 65536 has \<open>z\<close> index 0 (coordinate 1).
\<close>

theorem grid_generator_overflow_counterexample:
  "map_sum id snd (calls rng0 (GridGenerator (CVector3 0 0 0) (65536, 65537, 3) (CVector3 1 1 1) 0) 65536 (0::nat)) =
       Inr (GridGenerator (CVector3 0 0 0) (65536, 65537, 3) (CVector3 1 1 1) 65536, 0)
   \<and> operator_call rng0 (GridGenerator (CVector3 0 0 0) (65536, 65537, 3) (CVector3 1 1 1) 65536) False (0::nat) =
       Inr (CVector3 (65535 / 2) 32767 0,
            GridGenerator (CVector3 0 0 0) (65536, 65537, 3) (CVector3 1 1 1) 65537, 0)
   \<and> grid_cell (CVector3 0 0 0) (65536, 65537, 3) (CVector3 1 1 1) (row_major (65536, 65537, 3) 65536) =
       CVector3 (65535 / 2) 32767 1"
proof -
  have w: "(65536 :: 32 word) * 65537 * 3 = 196608" "(65536 :: 32 word) * 65537 = 65536" by simp_all
  have "0 + 65536 \<le> unat ((65536 :: 32 word) * 65537 * 3)" by (simp add: w)
  from calls_grid_state[OF this, of rng0 "CVector3 0 0 0" "CVector3 1 1 1" 0]
  have A: "\<exists>vs. calls rng0 (GridGenerator (CVector3 0 0 0) (65536, 65537, 3) (CVector3 1 1 1) 0) 65536 (0::nat) =
       Inr (vs, GridGenerator (CVector3 0 0 0) (65536, 65537, 3) (CVector3 1 1 1) 65536, 0)"
    by simp
  have B: "operator_call rng0 (GridGenerator (CVector3 0 0 0) (65536, 65537, 3) (CVector3 1 1 1) 65536) False (0::nat) =
       Inr (CVector3 (65535 / 2) 32767 0,
            GridGenerator (CVector3 0 0 0) (65536, 65537, 3) (CVector3 1 1 1) 65537, 0)"
    by (simp add: w)
  have C: "grid_cell (CVector3 0 0 0) (65536, 65537, 3) (CVector3 1 1 1) (row_major (65536, 65537, 3) 65536) =
       CVector3 (65535 / 2) 32767 1"
    by (simp add: grid_cell_def row_major_def)
  from A obtain vs where
    "calls rng0 (GridGenerator (CVector3 0 0 0) (65536, 65537, 3) (CVector3 1 1 1) 0) 65536 (0::nat) =
       Inr (vs, GridGenerator (CVector3 0 0 0) (65536, 65537, 3) (CVector3 1 1 1) 65536, 0)" ..
  then have A': "map_sum id snd (calls rng0 (GridGenerator (CVector3 0 0 0) (65536, 65537, 3) (CVector3 1 1 1) 0) 65536 (0::nat)) =
       Inr (GridGenerator (CVector3 0 0 0) (65536, 65537, 3) (CVector3 1 1 1) 65536, 0)"
    by simp
  show ?thesis using A' B C by (simp only: simp_thms)
qed

subsection \<open>The uniform generator\<close>

lemma uniform_axis:
  assumes "RNG_in_range rng" "lo \<le> hi"
  shows "lo \<le> fst (if hi > lo then RNG_Uniform rng lo hi r else (hi, r))
       \<and> fst (if hi > lo then RNG_Uniform rng lo hi r else (hi, r)) \<le> hi
       \<and> (lo = hi \<longrightarrow> fst (if hi > lo then RNG_Uniform rng lo hi r else (hi, r)) = hi)"
  using assms by (auto simp: RNG_in_range_def)

lemma uniform_call:
  assumes rng: "RNG_in_range rng" and le: "vec_le m_cMin m_cMax"
  shows "\<exists>v r'. operator_call rng (UniformGenerator m_cMin m_cMax) b_is_retry r =
            Inr (v, UniformGenerator m_cMin m_cMax, r') \<and> uniform_sample_ok m_cMin m_cMax v"
proof -
  have x: "GetX m_cMin \<le> GetX m_cMax" and y: "GetY m_cMin \<le> GetY m_cMax" and z: "GetZ m_cMin \<le> GetZ m_cMax"
    using le by (simp_all add: vec_le_def)
  obtain fx r1 where 1: "(if GetX m_cMax > GetX m_cMin then RNG_Uniform rng (GetX m_cMin) (GetX m_cMax) r else (GetX m_cMax, r)) = (fx, r1)"
    by (metis surj_pair)
  obtain fy r2 where 2: "(if GetY m_cMax > GetY m_cMin then RNG_Uniform rng (GetY m_cMin) (GetY m_cMax) r1 else (GetY m_cMax, r1)) = (fy, r2)"
    by (metis surj_pair)
  obtain fz r3 where 3: "(if GetZ m_cMax > GetZ m_cMin then RNG_Uniform rng (GetZ m_cMin) (GetZ m_cMax) r2 else (GetZ m_cMax, r2)) = (fz, r3)"
    by (metis surj_pair)
  have c: "operator_call rng (UniformGenerator m_cMin m_cMax) b_is_retry r =
            Inr (CVector3 fx fy fz, UniformGenerator m_cMin m_cMax, r3)"
    by (simp only: operator_call.simps 1 2 3 Let_def prod.case)
  have "uniform_sample_ok m_cMin m_cMax (CVector3 fx fy fz)"
    using uniform_axis[OF rng x, of r] uniform_axis[OF rng y, of r1] uniform_axis[OF rng z, of r2]
    unfolding 1 2 3 by (simp add: uniform_sample_ok_def vec_le_def)
  then show ?thesis using c by blast
qed

lemma rng0_in_range: "RNG_in_range rng0"
  by (simp add: RNG_in_range_def rng0_def)


text \<open>
  Claim C7. For a uniform generator with \<open>min \<le> max\<close> componentwise, and a random number
  generator whose uniform draw lies in the range it is given: any number \<open>k\<close> of calls
  returns \<open>k\<close> samples, every sample lies within \<open>[min, max]\<close> on each axis, and on an
  axis where \<open>min = max\<close> every sample equals that value (the generator returns
  \<^verbatim>\<open>m_cMax\<close> there without drawing). The generator is unchanged by the calls.
\<close>

theorem uniform_generator_in_range:
  assumes rng: "RNG_in_range rng" and le: "vec_le m_cMin m_cMax"
  shows "\<exists>vs r'. calls rng (UniformGenerator m_cMin m_cMax) k r =
            Inr (vs, UniformGenerator m_cMin m_cMax, r')
          \<and> length vs = k \<and> (\<forall>v \<in> set vs. uniform_sample_ok m_cMin m_cMax v)"
proof (induction k arbitrary: r)
  case 0
  show ?case by simp
next
  case (Suc k)
  obtain v r1 where c: "operator_call rng (UniformGenerator m_cMin m_cMax) False r =
            Inr (v, UniformGenerator m_cMin m_cMax, r1)" and ok: "uniform_sample_ok m_cMin m_cMax v"
    using uniform_call[OF rng le] by blast
  obtain vs r' where cs: "calls rng (UniformGenerator m_cMin m_cMax) k r1 =
            Inr (vs, UniformGenerator m_cMin m_cMax, r')"
      and n: "length vs = k" and all: "\<forall>v \<in> set vs. uniform_sample_ok m_cMin m_cMax v"
    using Suc.IH by blast
  have "calls rng (UniformGenerator m_cMin m_cMax) (Suc k) r =
            Inr (v # vs, UniformGenerator m_cMin m_cMax, r')"
    by (simp only: calls.simps c cs sum.case prod.case)
  then show ?case using n all ok by auto
qed


text \<open>An instance: X is drawn from \<open>[0, 2]\<close>, Y and Z are degenerate axes.\<close>

theorem uniform_generator_in_range_witness:
  "calls rng0 (UniformGenerator (CVector3 0 0 1) (CVector3 2 0 1)) 2 (0::nat) =
     Inr ([CVector3 1 0 1, CVector3 1 0 1], UniformGenerator (CVector3 0 0 1) (CVector3 2 0 1), 2)
   \<and> uniform_sample_ok (CVector3 0 0 1) (CVector3 2 0 1) (CVector3 1 0 1)"
proof -
  have le: "vec_le (CVector3 0 0 1) (CVector3 2 0 1)" by (simp add: vec_le_def)
  have c: "calls rng0 (UniformGenerator (CVector3 0 0 1) (CVector3 2 0 1)) 2 (0::nat) =
     Inr ([CVector3 1 0 1, CVector3 1 0 1], UniformGenerator (CVector3 0 0 1) (CVector3 2 0 1), 2)"
    by (simp add: numeral_2_eq_2 rng0_def)
  show ?thesis
    using uniform_generator_in_range[OF rng0_in_range le, of 2 0] unfolding c by auto
qed

section \<open>Properties of the space\<close>

subsection \<open>Reset\<close>

lemma dom_update_at: "dom (update_at f pc h) = dom h"
  by (auto simp: update_at_def split: option.splits)

lemma Reset_loop_frame:
  "let s' = fold (\<lambda>pc s'. s'\<lparr>objects := update_at f pc (objects s')\<rparr>) pcs s in
     m_unSimulationClock s' = m_unSimulationClock s
   \<and> m_vecEntities s' = m_vecEntities s
   \<and> m_vecRootEntities s' = m_vecRootEntities s
   \<and> m_mapEntitiesPerTypePerId s' = m_mapEntitiesPerTypePerId s
   \<and> m_vecControllableEntities s' = m_vecControllableEntities s
   \<and> m_ptPhysicsEngines s' = m_ptPhysicsEngines s
   \<and> dom (objects s') = dom (objects s)
   \<and> next_ptr s' = next_ptr s
   \<and> m_pcRNG s' = m_pcRNG s"
proof (induction pcs arbitrary: s)
  case Nil
  show ?case by simp
next
  case (Cons pc pcs)
  show ?case
    using Cons.IH[of "s\<lparr>objects := update_at f pc (objects s)\<rparr>"]
    by (simp add: Let_def dom_update_at)
qed


text \<open>
  Claim C9. \<^verbatim>\<open>Reset\<close> sets the simulation clock to zero and leaves the structure of the
  registry as it was: the flat collection, the root collection, the map from type and
  identifier to entity (so the set of registered identifiers), the controllable
  collection and the entity sets of the engines hold the same entries, and the same
  objects are alive. No entity is added or removed.
\<close>

theorem Reset_clock_and_registry:
  "m_unSimulationClock (Reset x s) = 0
   \<and> m_vecEntities (Reset x s) = m_vecEntities s
   \<and> m_vecRootEntities (Reset x s) = m_vecRootEntities s
   \<and> m_mapEntitiesPerTypePerId (Reset x s) = m_mapEntitiesPerTypePerId s
   \<and> m_vecControllableEntities (Reset x s) = m_vecControllableEntities s
   \<and> map m_tEntities (m_ptPhysicsEngines (Reset x s)) = map m_tEntities (m_ptPhysicsEngines s)
   \<and> dom (objects (Reset x s)) = dom (objects s)"
  using Reset_loop_frame[of "EntityReset x" "m_vecEntities s" "s\<lparr>m_unSimulationClock := 0\<rparr>"]
  by (simp add: Reset_def Let_def)


subsection \<open>One simulation step\<close>

lemma run_phase_Done:
  "f s = Done () s' \<Longrightarrow> run_phase ph f (Done () (s, evs)) = Done () (s', evs @ [Begins ph, Completes ph])"
  by (simp add: run_phase_def)

lemma run_phase_Throw:
  "f s = Throw ex s' \<Longrightarrow> run_phase ph f (Done () (s, evs)) = Throw ex (s', evs @ [Begins ph])"
  by (simp add: run_phase_def)

lemma run_phase_after_Throw: "run_phase ph f (Throw ex st) = Throw ex st"
  by (simp add: run_phase_def)


text \<open>
  Claim C8. In every step the phases run in this order, each complete before the next
  begins: the clock is incremented, then the act phase, then the physics engines, then
  the media, then the pre-step hook, then the sense phase, then the post-step hook; each
  phase works on the state the previous one has left. If the six phases after the clock
  return, the step returns the state the last one left, and its events are exactly
  \<open>step_events\<close>: the beginning and the completion of each of the seven phases, in this
  order. If a phase throws after the phases before it have returned, the step throws
  that exception with the state that phase left, and its events are the events of the
  phases before it followed by the beginning of that phase: no later phase has begun.
\<close>

theorem Update_phase_order:
  fixes x :: "'r collaborators" and s s1 s2 s3 s4 s5 s6 s' :: "'r CSpace"
  defines "s0 \<equiv> s\<lparr>m_unSimulationClock := m_unSimulationClock s + 1\<rparr>"
  shows
    "(UpdateControllableEntitiesAct x s0 = Done () s1 \<longrightarrow> UpdatePhysics x s1 = Done () s2
        \<longrightarrow> UpdateMedia x s2 = Done () s3 \<longrightarrow> PreStep x s3 = Done () s4
        \<longrightarrow> UpdateControllableEntitiesSenseStep x s4 = Done () s5 \<longrightarrow> PostStep x s5 = Done () s6
        \<longrightarrow> Update x (s, evs) = Done () (s6, evs @ step_events))
   \<and> (UpdateControllableEntitiesAct x s0 = Throw ex s'
        \<longrightarrow> Update x (s, evs) =
              Throw ex (s', evs @ [Begins Phase_IncreaseSimulationClock, Completes Phase_IncreaseSimulationClock,
                                   Begins Phase_Act]))
   \<and> (UpdateControllableEntitiesAct x s0 = Done () s1 \<longrightarrow> UpdatePhysics x s1 = Throw ex s'
        \<longrightarrow> Update x (s, evs) =
              Throw ex (s', evs @ [Begins Phase_IncreaseSimulationClock, Completes Phase_IncreaseSimulationClock,
                                   Begins Phase_Act, Completes Phase_Act,
                                   Begins Phase_Physics]))
   \<and> (UpdateControllableEntitiesAct x s0 = Done () s1 \<longrightarrow> UpdatePhysics x s1 = Done () s2
        \<longrightarrow> UpdateMedia x s2 = Throw ex s'
        \<longrightarrow> Update x (s, evs) =
              Throw ex (s', evs @ [Begins Phase_IncreaseSimulationClock, Completes Phase_IncreaseSimulationClock,
                                   Begins Phase_Act, Completes Phase_Act,
                                   Begins Phase_Physics, Completes Phase_Physics,
                                   Begins Phase_Media]))
   \<and> (UpdateControllableEntitiesAct x s0 = Done () s1 \<longrightarrow> UpdatePhysics x s1 = Done () s2
        \<longrightarrow> UpdateMedia x s2 = Done () s3 \<longrightarrow> PreStep x s3 = Throw ex s'
        \<longrightarrow> Update x (s, evs) =
              Throw ex (s', evs @ [Begins Phase_IncreaseSimulationClock, Completes Phase_IncreaseSimulationClock,
                                   Begins Phase_Act, Completes Phase_Act,
                                   Begins Phase_Physics, Completes Phase_Physics,
                                   Begins Phase_Media, Completes Phase_Media,
                                   Begins Phase_PreStep]))
   \<and> (UpdateControllableEntitiesAct x s0 = Done () s1 \<longrightarrow> UpdatePhysics x s1 = Done () s2
        \<longrightarrow> UpdateMedia x s2 = Done () s3 \<longrightarrow> PreStep x s3 = Done () s4
        \<longrightarrow> UpdateControllableEntitiesSenseStep x s4 = Throw ex s'
        \<longrightarrow> Update x (s, evs) =
              Throw ex (s', evs @ [Begins Phase_IncreaseSimulationClock, Completes Phase_IncreaseSimulationClock,
                                   Begins Phase_Act, Completes Phase_Act,
                                   Begins Phase_Physics, Completes Phase_Physics,
                                   Begins Phase_Media, Completes Phase_Media,
                                   Begins Phase_PreStep, Completes Phase_PreStep,
                                   Begins Phase_SenseStep]))
   \<and> (UpdateControllableEntitiesAct x s0 = Done () s1 \<longrightarrow> UpdatePhysics x s1 = Done () s2
        \<longrightarrow> UpdateMedia x s2 = Done () s3 \<longrightarrow> PreStep x s3 = Done () s4
        \<longrightarrow> UpdateControllableEntitiesSenseStep x s4 = Done () s5 \<longrightarrow> PostStep x s5 = Throw ex s'
        \<longrightarrow> Update x (s, evs) =
              Throw ex (s', evs @ [Begins Phase_IncreaseSimulationClock, Completes Phase_IncreaseSimulationClock,
                                   Begins Phase_Act, Completes Phase_Act,
                                   Begins Phase_Physics, Completes Phase_Physics,
                                   Begins Phase_Media, Completes Phase_Media,
                                   Begins Phase_PreStep, Completes Phase_PreStep,
                                   Begins Phase_SenseStep, Completes Phase_SenseStep,
                                   Begins Phase_PostStep]))"
proof -
  have c: "run_phase Phase_IncreaseSimulationClock IncreaseSimulationClock (Done () (s, evs)) =
      Done () (s0, evs @ [Begins Phase_IncreaseSimulationClock, Completes Phase_IncreaseSimulationClock])"
    by (simp add: run_phase_def IncreaseSimulationClock_def s0_def)
  show ?thesis
    unfolding Update_def c
    by (intro conjI impI)
       (simp_all add: run_phase_Done run_phase_Throw run_phase_after_Throw step_events_def)
qed

text \<open>
  Two steps in an empty space. In the first every phase returns: the clock is 1 and the
  events are those of the seven phases. In the second the physics engines throw: the
  step throws that exception and its events end with the beginning of the physics
  phase; the media, the hooks and the sense phase have not begun.
\<close>

theorem Update_phase_order_witness:
  "Update env0 (empty_space [], []) =
     Done () ((empty_space [])\<lparr>m_unSimulationClock := 1\<rparr>, step_events)
   \<and> Update (env0\<lparr>UpdatePhysics := (\<lambda>s. Throw (CARGoSException ''engine failure'') s)\<rparr>)
        (empty_space [], []) =
       Throw (CARGoSException ''engine failure'')
         ((empty_space [])\<lparr>m_unSimulationClock := 1\<rparr>,
          [Begins Phase_IncreaseSimulationClock, Completes Phase_IncreaseSimulationClock,
           Begins Phase_Act, Completes Phase_Act, Begins Phase_Physics])"
proof -
  let ?s1 = "(empty_space [] :: nat CSpace)\<lparr>m_unSimulationClock := 1\<rparr>"
  let ?x = "env0\<lparr>UpdatePhysics := (\<lambda>s. Throw (CARGoSException ''engine failure'') s)\<rparr>"
  have s0: "(empty_space [] :: nat CSpace)\<lparr>m_unSimulationClock := m_unSimulationClock (empty_space [] :: nat CSpace) + 1\<rparr> = ?s1"
    by (simp add: empty_space_def)
  have A: "Update env0 (empty_space [], []) = Done () (?s1, step_events)"
    using Update_phase_order[where x = env0 and s = "empty_space []" and evs = "[]" and ?s1.0 = ?s1
        and ?s2.0 = ?s1 and ?s3.0 = ?s1 and ?s4.0 = ?s1 and ?s5.0 = ?s1 and ?s6.0 = ?s1]
    unfolding s0 by (simp add: env0_def)
  have B: "Update ?x (empty_space [], []) =
       Throw (CARGoSException ''engine failure'')
         (?s1, [Begins Phase_IncreaseSimulationClock, Completes Phase_IncreaseSimulationClock,
           Begins Phase_Act, Completes Phase_Act, Begins Phase_Physics])"
    using Update_phase_order[where x = ?x and s = "empty_space []" and evs = "[]" and ?s1.0 = ?s1
        and ex = "CARGoSException ''engine failure''" and s' = ?s1]
    unfolding s0 by (simp add: env0_def)
  show ?thesis using A B by (simp only: simp_thms)
qed

subsection \<open>Assigning an embodied entity to its physics engines\<close>

lemma GetRootEntity_eq: "GetRootEntity pc = (fst pc, [])"
proof (induction pc rule: GetRootEntity.induct)
  case (1 pc)
  show ?case
  proof (cases "HasParent pc")
    case True
    then show ?thesis
      using "1.IH" by (subst GetRootEntity.simps) (simp add: GetParent_def)
  next
    case False
    then show ?thesis
      by (subst GetRootEntity.simps) (simp add: HasParent_def prod_eq_iff)
  qed
qed

lemma GetRootEntity_topmost:
  "\<not> HasParent (GetRootEntity pc) \<and> under (GetRootEntity pc) pc"
  by (simp add: GetRootEntity_eq HasParent_def under_def)

lemma deref_root: "deref h pc = Some e \<Longrightarrow> \<exists>r. deref h (GetRootEntity pc) = Some r \<and> h (fst pc) = Some r"
  by (auto simp: deref_def GetRootEntity_eq split: option.splits)

lemma AddEntity_at_frame:
  "m_unSimulationClock (AddEntity_at pc i s) = m_unSimulationClock s"
  "m_vecEntities (AddEntity_at pc i s) = m_vecEntities s"
  "m_vecRootEntities (AddEntity_at pc i s) = m_vecRootEntities s"
  "m_mapEntitiesPerTypePerId (AddEntity_at pc i s) = m_mapEntitiesPerTypePerId s"
  "m_vecControllableEntities (AddEntity_at pc i s) = m_vecControllableEntities s"
  "objects (AddEntity_at pc i s) = objects s"
  "next_ptr (AddEntity_at pc i s) = next_ptr s"
  "m_pcRNG (AddEntity_at pc i s) = m_pcRNG s"
  "length (m_ptPhysicsEngines (AddEntity_at pc i s)) = length (m_ptPhysicsEngines s)"
  by (simp_all add: AddEntity_at_def)

lemma AddEntity_at_nth:
  "j < length (m_ptPhysicsEngines s) \<Longrightarrow>
   m_ptPhysicsEngines (AddEntity_at pc i s) ! j =
     (if j = i then engine_AddEntity pc (m_ptPhysicsEngines s ! j) else m_ptPhysicsEngines s ! j)"
  by (simp add: AddEntity_at_def nth_list_update)

lemma fold_AddEntity_at_frame:
  "m_unSimulationClock (fold (AddEntity_at pc) idxs s) = m_unSimulationClock s
 \<and> m_vecEntities (fold (AddEntity_at pc) idxs s) = m_vecEntities s
 \<and> m_vecRootEntities (fold (AddEntity_at pc) idxs s) = m_vecRootEntities s
 \<and> m_mapEntitiesPerTypePerId (fold (AddEntity_at pc) idxs s) = m_mapEntitiesPerTypePerId s
 \<and> m_vecControllableEntities (fold (AddEntity_at pc) idxs s) = m_vecControllableEntities s
 \<and> objects (fold (AddEntity_at pc) idxs s) = objects s
 \<and> next_ptr (fold (AddEntity_at pc) idxs s) = next_ptr s
 \<and> m_pcRNG (fold (AddEntity_at pc) idxs s) = m_pcRNG s
 \<and> length (m_ptPhysicsEngines (fold (AddEntity_at pc) idxs s)) = length (m_ptPhysicsEngines s)"
  by (induction idxs arbitrary: s) (simp_all add: AddEntity_at_frame)

lemma fold_AddEntity_at_nth:
  "distinct idxs \<Longrightarrow> j < length (m_ptPhysicsEngines s) \<Longrightarrow>
   m_ptPhysicsEngines (fold (AddEntity_at pc) idxs s) ! j =
     (if j \<in> set idxs then engine_AddEntity pc (m_ptPhysicsEngines s ! j) else m_ptPhysicsEngines s ! j)"
proof (induction idxs arbitrary: s)
  case Nil
  show ?case by simp
next
  case (Cons i idxs)
  have d: "distinct idxs" and ni: "i \<notin> set idxs" using Cons.prems(1) by simp_all
  have j: "j < length (m_ptPhysicsEngines (AddEntity_at pc i s))"
    using Cons.prems(2) by (simp add: AddEntity_at_frame)
  show ?case
    using Cons.IH[OF d j] ni Cons.prems(2) by (auto simp: AddEntity_at_nth)
qed

lemma potential_engines_set:
  "set (potential_engines engines cPos) = {i. i < length engines \<and> IsPointContained (engines ! i) cPos}"
  by (auto simp: potential_engines_def)

lemma potential_engines_Nil:
  "potential_engines engines cPos = [] \<longleftrightarrow>
     \<not> (\<exists>i < length engines. IsPointContained (engines ! i) cPos)"
proof -
  have "potential_engines engines cPos = [] \<longleftrightarrow> set (potential_engines engines cPos) = {}"
    by simp
  also have "\<dots> \<longleftrightarrow> \<not> (\<exists>i < length engines. IsPointContained (engines ! i) cPos)"
    unfolding potential_engines_set by blast
  finally show ?thesis .
qed

lemma potential_engines_distinct: "distinct (potential_engines engines cPos)"
  by (simp add: potential_engines_def)


text \<open>
  Claim C3. For an immovable embodied entity, \<^verbatim>\<open>AddEntityToPhysicsEngine\<close> resolves the
  topmost ancestor of the entity (an entity without parent that owns it), tests the
  position of the embodied entity itself against every engine, and adds that root to
  every engine whose domain contains the position, leaving the other engines and the
  registry as they were; if no engine's domain contains the position it throws the
  exception that no physics engine can house the entity, naming the root.
\<close>

theorem AddEntityToPhysicsEngine_immovable:
  assumes c: "deref (objects s) c_entity = Some embodied"
      and im: "\<not> m_bMovable embodied"
  shows "\<not> HasParent (GetRootEntity c_entity) \<and> under (GetRootEntity c_entity) c_entity
     \<and> (\<exists>root_entity. objects s (fst (GetRootEntity c_entity)) = Some root_entity
        \<and> ((\<exists>i < length (m_ptPhysicsEngines s).
               IsPointContained (m_ptPhysicsEngines s ! i) (m_cPosition embodied))
            \<longrightarrow> (\<exists>s'. AddEntityToPhysicsEngine x c_entity s = Some (Done () s')
                 \<and> length (m_ptPhysicsEngines s') = length (m_ptPhysicsEngines s)
                 \<and> (\<forall>i < length (m_ptPhysicsEngines s).
                      m_ptPhysicsEngines s' ! i =
                        (if IsPointContained (m_ptPhysicsEngines s ! i) (m_cPosition embodied)
                         then engine_AddEntity (GetRootEntity c_entity) (m_ptPhysicsEngines s ! i)
                         else m_ptPhysicsEngines s ! i))
                 \<and> m_vecEntities s' = m_vecEntities s
                 \<and> m_vecRootEntities s' = m_vecRootEntities s
                 \<and> m_mapEntitiesPerTypePerId s' = m_mapEntitiesPerTypePerId s
                 \<and> objects s' = objects s))
        \<and> (\<not> (\<exists>i < length (m_ptPhysicsEngines s).
               IsPointContained (m_ptPhysicsEngines s ! i) (m_cPosition embodied))
            \<longrightarrow> AddEntityToPhysicsEngine x c_entity s =
                  Some (Throw (no_engine_exception (m_strId root_entity)) s)))"
proof -
  obtain r where r: "deref (objects s) (GetRootEntity c_entity) = Some r"
    and hr: "objects s (fst c_entity) = Some r"
    using deref_root[OF c] by blast
  let ?P = "potential_engines (m_ptPhysicsEngines s) (m_cPosition embodied)"
  have ex: "(\<exists>i < length (m_ptPhysicsEngines s). IsPointContained (m_ptPhysicsEngines s ! i) (m_cPosition embodied))
      \<longleftrightarrow> ?P \<noteq> []"
    using potential_engines_Nil[of "m_ptPhysicsEngines s" "m_cPosition embodied"] by blast
  have A: "?P \<noteq> [] \<Longrightarrow> AddEntityToPhysicsEngine x c_entity s =
      Some (Done () (fold (AddEntity_at (GetRootEntity c_entity)) ?P s))"
    using c r im by (simp add: AddEntityToPhysicsEngine_def Let_def)
  have B: "?P = [] \<Longrightarrow> AddEntityToPhysicsEngine x c_entity s =
      Some (Throw (no_engine_exception (m_strId r)) s)"
    using c r im by (simp add: AddEntityToPhysicsEngine_def Let_def)
  have nth: "\<forall>i < length (m_ptPhysicsEngines s).
      m_ptPhysicsEngines (fold (AddEntity_at (GetRootEntity c_entity)) ?P s) ! i =
        (if IsPointContained (m_ptPhysicsEngines s ! i) (m_cPosition embodied)
         then engine_AddEntity (GetRootEntity c_entity) (m_ptPhysicsEngines s ! i)
         else m_ptPhysicsEngines s ! i)"
    using fold_AddEntity_at_nth[where s = s and pc = "GetRootEntity c_entity" and idxs = ?P,
        OF potential_engines_distinct]
    by (simp add: potential_engines_set)
  show ?thesis
    using GetRootEntity_topmost[of c_entity] hr A B nth ex
      fold_AddEntity_at_frame[of "GetRootEntity c_entity" ?P s]
    by (simp add: GetRootEntity_eq)
qed

subsection \<open>The example scene\<close>


lemma potential_engines_2:
  "potential_engines [e0, e1] v =
     (if IsPointContained e0 v then [0] else []) @ (if IsPointContained e1 v then [1] else [])"
  by (simp add: potential_engines_def upt_rec[of 0] upt_rec[of 1] upt_rec[of "Suc 0"] numeral_2_eq_2)

lemma env0_fields [simp]:
  "RNG env0 = rng0" "stream_object_text env0 = ''0x7ffd5c3ab1e0''"
  "CFactory_New_Init env0 = factory0" "IsCollidingWithSomething env0 = (\<lambda>s b. False)"
  by (simp_all add: env0_def)

lemma empty_space_fields [simp]:
  "m_vecEntities (empty_space engines) = []" "m_vecRootEntities (empty_space engines) = []"
  "m_vecControllableEntities (empty_space engines) = []"
  "m_mapEntitiesPerTypePerId (empty_space engines) = Map.empty"
  "m_ptPhysicsEngines (empty_space engines) = engines" "objects (empty_space engines) = Map.empty"
  "next_ptr (empty_space engines) = 0" "m_pcRNG (empty_space engines) = 0"
  "m_unSimulationClock (empty_space engines) = 0"
  by (simp_all add: empty_space_def)

lemma overlap_space_fields [simp]:
  "m_ptPhysicsEngines overlap_space = [engine_a, engine_b]"
  "objects overlap_space 0 = Some (CEntity ''box0'' ''box'' CEmbodiedEntity_class (CVector3 0 0 0) (CVector3 0 0 0) True [])"
  "objects overlap_space (Suc 0) = Some (CEntity ''wall0'' ''wall'' CEmbodiedEntity_class (CVector3 0 0 0) (CVector3 0 0 0) False [])"
  "objects overlap_space 2 = Some (CEntity ''box1'' ''box'' CEmbodiedEntity_class (CVector3 (3 / 2) 0 0) (CVector3 0 0 0) True [])"
  "m_vecEntities overlap_space = []" "m_vecRootEntities overlap_space = []"
  "m_mapEntitiesPerTypePerId overlap_space = Map.empty"
  by (simp_all add: overlap_space_def empty_space_def)

text \<open>
  An instance: the immovable \<^verbatim>\<open>wall0\<close> stands at \<open>x = 0\<close>, inside the domains of both
  overlapping engines, and is added to both.
\<close>

theorem AddEntityToPhysicsEngine_immovable_witness:
  "\<exists>s'. AddEntityToPhysicsEngine env0 (1, []) overlap_space = Some (Done () s')
       \<and> map m_tEntities (m_ptPhysicsEngines s') = [[(1, [])], [(1, [])]]
       \<and> m_vecEntities s' = []"
proof -
  have d: "deref (objects overlap_space) (1, []) =
      Some (CEntity ''wall0'' ''wall'' CEmbodiedEntity_class (CVector3 0 0 0) (CVector3 0 0 0) False [])"
    by (simp add: deref_def)
  have im: "\<not> m_bMovable (CEntity ''wall0'' ''wall'' CEmbodiedEntity_class (CVector3 0 0 0) (CVector3 0 0 0) False [])"
    by simp
  have ex: "\<exists>i < length (m_ptPhysicsEngines overlap_space).
      IsPointContained (m_ptPhysicsEngines overlap_space ! i)
        (m_cPosition (CEntity ''wall0'' ''wall'' CEmbodiedEntity_class (CVector3 0 0 0) (CVector3 0 0 0) False []))"
    by (intro exI[of _ 0]) (simp add: engine_a_def)
  obtain s' where r: "AddEntityToPhysicsEngine env0 (1, []) overlap_space = Some (Done () s')"
    and len: "length (m_ptPhysicsEngines s') = length (m_ptPhysicsEngines overlap_space)"
    and nth: "\<forall>i < length (m_ptPhysicsEngines overlap_space).
                m_ptPhysicsEngines s' ! i =
                  (if IsPointContained (m_ptPhysicsEngines overlap_space ! i)
                        (m_cPosition (CEntity ''wall0'' ''wall'' CEmbodiedEntity_class (CVector3 0 0 0) (CVector3 0 0 0) False []))
                   then engine_AddEntity (GetRootEntity (1, [])) (m_ptPhysicsEngines overlap_space ! i)
                   else m_ptPhysicsEngines overlap_space ! i)"
    and ve: "m_vecEntities s' = m_vecEntities overlap_space"
    using AddEntityToPhysicsEngine_immovable[OF d im, of env0] ex by blast
  have n0: "m_tEntities (m_ptPhysicsEngines s' ! 0) = [(1, [])]"
    using nth by (simp add: engine_a_def engine_AddEntity_def GetRootEntity_eq)
  have n1: "m_tEntities (m_ptPhysicsEngines s' ! 1) = [(1, [])]"
    using nth by (simp add: engine_b_def engine_AddEntity_def GetRootEntity_eq)
  have "length (m_ptPhysicsEngines s') = 2" using len by simp
  then obtain a b where ab: "m_ptPhysicsEngines s' = [a, b]"
    by (metis (no_types, opaque_lifting) One_nat_def Suc_1 length_0_conv length_Suc_conv)
  have "map m_tEntities (m_ptPhysicsEngines s') = [[(1, [])], [(1, [])]]"
    using n0 n1 unfolding ab by simp
  then show ?thesis using r ve by auto
qed

subsection \<open>Movable entities\<close>

text \<open>
  A movable entity inside exactly one domain is added, by its root, to that engine. Inside
  more than one domain the call throws and the space is as before; the text of the
  exception ends with what \<^verbatim>\<open><< ossEngines\<close> inserts, which is not the buffer.
\<close>

lemma AddEntityToPhysicsEngine_movable:
  assumes c: "deref (objects s) c_entity = Some embodied" and mv: "m_bMovable embodied"
  shows "(potential_engines (m_ptPhysicsEngines s) (m_cPosition embodied) = [i] \<longrightarrow>
            AddEntityToPhysicsEngine x c_entity s =
              Some (Done () (AddEntity_at (GetRootEntity c_entity) i s)))
       \<and> (1 < length (potential_engines (m_ptPhysicsEngines s) (m_cPosition embodied)) \<longrightarrow>
            AddEntityToPhysicsEngine x c_entity s =
              Some (Throw
                (multiple_engines_exception x (m_strId embodied)
                   (ossEngines_buffer
                      (map (\<lambda>i. engine_GetId (m_ptPhysicsEngines s ! i))
                         (potential_engines (m_ptPhysicsEngines s) (m_cPosition embodied)))))
                s))"
proof -
  obtain r where r: "deref (objects s) (GetRootEntity c_entity) = Some r"
    using deref_root[OF c] by blast
  show ?thesis
    using c r mv by (auto simp: AddEntityToPhysicsEngine_def Let_def)
qed

text \<open>
  Claim C2. The movable \<^verbatim>\<open>box1\<close> at \<open>x = 3/2\<close> is inside the domain of
  \<^verbatim>\<open>dyn2d_b\<close> only and is added to that engine. The movable \<^verbatim>\<open>box0\<close> at \<open>x = 0\<close> is
  inside the domains of both \<^verbatim>\<open>dyn2d_a\<close> and \<^verbatim>\<open>dyn2d_b\<close>: the call throws, no engine is
  modified, but the message does not name the engines. The buffer of \<^verbatim>\<open>ossEngines\<close> holds
  both names; the message ends with the text the stream object itself is inserted as.
\<close>

theorem AddEntityToPhysicsEngine_ambiguous_message:
  "AddEntityToPhysicsEngine env0 (2, []) overlap_space =
     Some (Done () (AddEntity_at (2, []) 1 overlap_space))
   \<and> map m_tEntities (m_ptPhysicsEngines (AddEntity_at (2, []) 1 overlap_space)) = [[], [(2, [])]]
   \<and> AddEntityToPhysicsEngine env0 (0, []) overlap_space =
     Some (Throw
       (CARGoSException
          (''Multiple engines can house '' @ dquoted ''box0''
             @ '', but a movable entity and can only be added to a single engine. Conflicting engines: ''
             @ ''0x7ffd5c3ab1e0''))
       overlap_space)
   \<and> ossEngines_buffer (map (\<lambda>i. engine_GetId (m_ptPhysicsEngines overlap_space ! i))
        (potential_engines (m_ptPhysicsEngines overlap_space) (CVector3 0 0 0))) =
       dquoted ''dyn2d_a'' @ '', '' @ dquoted ''dyn2d_b''"
proof -
  have p: "potential_engines (m_ptPhysicsEngines overlap_space) (CVector3 0 0 0) = [0, 1]"
    by (simp add: potential_engines_2 engine_a_def engine_b_def)
  have d: "deref (objects overlap_space) (0, []) =
      Some (CEntity ''box0'' ''box'' CEmbodiedEntity_class (CVector3 0 0 0) (CVector3 0 0 0) True [])"
    by (simp add: deref_def)
  have "AddEntityToPhysicsEngine env0 (0, []) overlap_space =
     Some (Throw (multiple_engines_exception env0 ''box0''
        (ossEngines_buffer (map (\<lambda>i. engine_GetId (m_ptPhysicsEngines overlap_space ! i)) [0, 1]))) overlap_space)"
    using AddEntityToPhysicsEngine_movable[OF d, where x = env0] p by simp
  then have many: "AddEntityToPhysicsEngine env0 (0, []) overlap_space =
     Some (Throw
       (CARGoSException
          (''Multiple engines can house '' @ dquoted ''box0''
             @ '', but a movable entity and can only be added to a single engine. Conflicting engines: ''
             @ ''0x7ffd5c3ab1e0''))
       overlap_space)"
    by (simp add: multiple_engines_exception_def insert_stream_object_def)
  have buf: "ossEngines_buffer (map (\<lambda>i. engine_GetId (m_ptPhysicsEngines overlap_space ! i))
        (potential_engines (m_ptPhysicsEngines overlap_space) (CVector3 0 0 0))) =
       dquoted ''dyn2d_a'' @ '', '' @ dquoted ''dyn2d_b''"
    unfolding p by (simp add: ossEngines_buffer_def engine_a_def engine_b_def)
  have p1: "potential_engines (m_ptPhysicsEngines overlap_space) (CVector3 (3 / 2) 0 0) = [1]"
    by (simp add: potential_engines_2 engine_a_def engine_b_def)
  have d1: "deref (objects overlap_space) (2, []) =
      Some (CEntity ''box1'' ''box'' CEmbodiedEntity_class (CVector3 (3 / 2) 0 0) (CVector3 0 0 0) True [])"
    by (simp add: deref_def)
  have one: "AddEntityToPhysicsEngine env0 (2, []) overlap_space =
     Some (Done () (AddEntity_at (2, []) 1 overlap_space))"
    using AddEntityToPhysicsEngine_movable[OF d1, where x = env0] p1
    by (simp add: GetRootEntity_eq)
  have held: "map m_tEntities (m_ptPhysicsEngines (AddEntity_at (2, []) 1 overlap_space)) = [[], [(2, [])]]"
    by (simp add: AddEntity_at_def engine_AddEntity_def engine_a_def engine_b_def)
  show ?thesis
    using one held many buf by (simp only: simp_thms)
qed

section \<open>Properties of the distribution of entities\<close>

subsection \<open>One trial with an embodied entity\<close>

lemma SetId_sel [simp]:
  "m_strId (SetId i e) = i" "GetTypeDescription (SetId i e) = GetTypeDescription e"
  "m_class (SetId i e) = m_class e" "m_cPosition (SetId i e) = m_cPosition e"
  "m_cOrientation (SetId i e) = m_cOrientation e" "m_bMovable (SetId i e) = m_bMovable e"
  "m_mapComponents (SetId i e) = m_mapComponents e"
  by (simp_all add: SetId_def)

lemma has_body_SetId [simp]: "has_body (SetId i e) = has_body e"
  by (simp add: has_body_def HasComponent_def)


lemma housing_SetId [simp]: "housing engines (SetId i e) = housing engines e"
  by (simp add: housing_def body_def)

lemma houses_SetId [simp]: "houses engines (SetId i e) = houses engines e"
  by (simp add: houses_def body_def)





lemma GetEmbodiedEntity_positional:
  assumes "h p = Some e" "m_class e = CPositionalEntity_class"
  shows "GetEmbodiedEntity h (p, []) = None" "GetPositionalEntity h (p, []) = Some (p, [])"
  using assms by (simp_all add: GetEmbodiedEntity_def GetPositionalEntity_def deref_def)



lemma under_root: "under (p, []) r \<longleftrightarrow> fst r = p"
  by (simp add: under_def)

lemma filter_fresh:
  "\<forall>r \<in> set xs. fst r < p \<Longrightarrow> filter (\<lambda>r. \<not> under (p, []) r) (xs @ [(p, [])]) = xs"
  by (induction xs) (auto simp: under_root)

lemma filter_fresh':
  "\<forall>r \<in> set xs. fst r < p \<Longrightarrow> filter (\<lambda>r. \<not> under (p, []) r) xs = xs"
  by (induction xs) (auto simp: under_root)

lemma potential_engines_cong:
  assumes "length a = length b" "\<forall>i < length a. IsPointContained (a ! i) = IsPointContained (b ! i)"
  shows "potential_engines a v = potential_engines b v"
  unfolding potential_engines_def using assms
  by (auto intro!: filter_cong)

lemma length_house [simp]: "length (house pc idxs engines) = length engines"
  by (simp add: house_def)

lemma nth_house:
  "j < length engines \<Longrightarrow>
   house pc idxs engines ! j =
     (if j \<in> set idxs then engine_AddEntity pc (engines ! j) else engines ! j)"
  by (simp add: house_def)


lemma potential_engines_house [simp]:
  "potential_engines (house pc idxs engines) v = potential_engines engines v"
  by (rule potential_engines_cong) (simp_all add: nth_house engine_AddEntity_def)

lemma housing_house [simp]: "housing (house pc idxs engines) e = housing engines e"
  by (simp add: housing_def split: option.splits)

lemma houses_house [simp]: "houses (house pc idxs engines) e = houses engines e"
  by (simp add: houses_def split: option.splits)
















subsection \<open>One copy\<close>

lemma not_grid_call:
  "\<not> is_grid g \<Longrightarrow> \<exists>v r'. operator_call rng g b r = Inr (v, g, r')"
  by (cases g) (auto simp: Let_def split: prod.splits)

lemma not_grid_can_serve: "\<not> is_grid g \<Longrightarrow> can_serve g n"
  by (cases g) auto


lemma can_serve_mono: "can_serve g (Suc n) \<Longrightarrow> can_serve g n"
  by (cases g) (auto split: prod.splits)













subsection \<open>All copies\<close>















lemma trial_positional:
  assumes pg: "operator_call (RNG x) pg bRetry (m_pcRNG s) = Inr (cPosition, pg', r1)"
      and og: "operator_call (RNG x) og bRetry r1 = Inr (cOrientation, og', r2)"
      and f: "CFactory_New_Init x ty str_id cPosition cOrientation = Inr e"
      and cls: "m_class e = CPositionalEntity_class"
  shows "\<exists>s'. trial_body x ty str_id base unMaxTrials k (t, bRetry) (pg, og, s) =
            Some (Done (False, t, bRetry) (pg', og', s'))
          \<and> m_vecEntities s' = m_vecEntities s @ [(next_ptr s, [])]"
proof -
  let ?p = "next_ptr s"
  let ?h = "(objects s)(?p \<mapsto> SetId str_id e)"
  have o: "?h ?p = Some (SetId str_id e)" by simp
  have c: "m_class (SetId str_id e) = CPositionalEntity_class" using cls by simp
  have ge: "GetEmbodiedEntity ?h (?p, []) = None" and gp: "GetPositionalEntity ?h (?p, []) = Some (?p, [])"
    using GetEmbodiedEntity_positional[where h = ?h, OF o c] by simp_all
  have d: "deref ?h (?p, []) = Some (SetId str_id e)" by (simp add: deref_def)
  show ?thesis
    unfolding trial_body_def
    using pg og f ge gp d
    by (simp add: Let_def CSpaceOperationAddEntity_def AddEntity_def HasParent_def cls)
qed

lemma place_entity_positional_diverges:
  assumes fac: "positional_factory x ty" and ng: "\<not> is_grid pg" "\<not> is_grid og"
  shows "place_entity x ty str_id base unMaxTrials k vars (pg, og, s) = None"
proof (rule ccontr)
  assume "place_entity x ty str_id base unMaxTrials k vars (pg, og, s) \<noteq> None"
  then obtain y where y: "place_entity x ty str_id base unMaxTrials k vars (pg, og, s) = Some y"
    by auto
  define P where "P = (\<lambda>(x' :: 'a collaborators) (ty' :: string) (sid :: string) (b :: string) (m :: UInt32) (i :: UInt32) (v :: UInt32 \<times> bool)
               (st :: 'a dstate) (y :: (unit, 'a dstate) outcome).
             \<not> (positional_factory x' ty' \<and> \<not> is_grid (fst st) \<and> \<not> is_grid (fst (snd st))))"
  have "P x ty str_id base unMaxTrials k vars (pg, og, s) y"
  proof (rule place_entity.raw_induct[where P = P
        and xa = "(((((((x, ty), str_id), base), unMaxTrials), k), vars), (pg, og, s))" and y = y, unfolded prod.case])
    show "place_entity x ty str_id base unMaxTrials k vars (pg, og, s) = Some y" by (rule y)
  next
    fix pe :: "'a collaborators \<Rightarrow> string \<Rightarrow> string \<Rightarrow> string \<Rightarrow> UInt32 \<Rightarrow> UInt32 \<Rightarrow> UInt32 \<times> bool
               \<Rightarrow> 'a dstate \<Rightarrow> (unit, 'a dstate) outcome option"
    fix x' ty' sid b m i v st xa
    assume IH: "\<And>str_type str_id strBaseId unMaxTrials i vars st b y.
        pe str_type str_id strBaseId unMaxTrials i vars st b = Some y \<Longrightarrow>
        P str_type str_id strBaseId unMaxTrials i vars st b y"
    assume eq: "(case trial_body x' ty' sid b m i v st of
      None \<Rightarrow> None
      | Some (Done (bDone, vars') st') \<Rightarrow>
          if bDone then Some (Done () st')
          else pe x' ty' sid b m i vars' st'
      | Some (Throw ex st') \<Rightarrow> Some (Throw ex st')) = Some xa"
    show "P x' ty' sid b m i v st xa"
      unfolding P_def
    proof
      assume inv: "positional_factory x' ty' \<and> \<not> is_grid (fst st) \<and> \<not> is_grid (fst (snd st))"
      obtain pg1 og1 s1 where st: "st = (pg1, og1, s1)" by (cases st) auto
      obtain t bR where v: "v = (t, bR)" by (cases v) auto
      have ng1: "\<not> is_grid pg1" "\<not> is_grid og1" using inv st by simp_all
      obtain cPos r1 where c1: "operator_call (RNG x') pg1 bR (m_pcRNG s1) = Inr (cPos, pg1, r1)"
        using not_grid_call[OF ng1(1), of "RNG x'" bR "m_pcRNG s1"] by blast
      obtain cOri r2 where c2: "operator_call (RNG x') og1 bR r1 = Inr (cOri, og1, r2)"
        using not_grid_call[OF ng1(2), of "RNG x'" bR r1] by blast
      obtain e where f: "CFactory_New_Init x' ty' sid cPos cOri = Inr e"
        and cls: "m_class e = CPositionalEntity_class"
        using inv unfolding positional_factory_def by blast
      obtain s' where tb: "trial_body x' ty' sid b m i (t, bR) (pg1, og1, s1) =
            Some (Done (False, t, bR) (pg1, og1, s'))"
        using trial_positional[OF c1 c2 f cls] by blast
      have "pe x' ty' sid b m i (t, bR) (pg1, og1, s') = Some xa"
        using eq unfolding st v tb by simp
      then have "P x' ty' sid b m i (t, bR) (pg1, og1, s') xa" by (rule IH)
      then show False unfolding P_def using inv ng1 by simp
    qed
  qed
  then show False unfolding P_def using fac ng by simp
qed

subsection \<open>Positional entities\<close>

text \<open>
  Claim C1. For a directive that asks for at least one copy of an entity that is positional
  but not embodied: the positional branch of the loop adds the entity and leaves
  \<^verbatim>\<open>bDone\<close> false, so the loop \<^verbatim>\<open>do ... while(!bDone)\<close> of the first copy never ends and
  \<^verbatim>\<open>Distribute\<close> does not return.
\<close>

theorem Distribute_positional_never_returns:
  assumes pos: "CreateGenerator x (node_position t_tree) = Inr pg"
      and ori: "CreateGenerator x (node_orientation t_tree) = Inr og"
      and ng: "\<not> is_grid pg" "\<not> is_grid og"
      and ent: "node_entity t_tree = Some (str_type, strBaseId)"
      and fac: "positional_factory x str_type"
      and q: "0 < attr_quantity t_tree"
  shows "Distribute x t_tree s = None"
proof -
  have "place_entity x str_type (copy_id strBaseId (base_num t_tree) 0) strBaseId (attr_max_trials t_tree) 0 (0, False) (pg, og, s) = None"
    by (rule place_entity_positional_diverges[OF fac ng])
  then have "Distribute_loop x str_type strBaseId (base_num t_tree) (attr_max_trials t_tree) (attr_quantity t_tree) 0 (pg, og, s) = None"
    using q by (subst Distribute_loop.simps) simp
  then show ?thesis
    using pos ori ent by (simp add: Distribute_def Distribute_try_def)
qed

subsection \<open>Instances\<close>





lemma positional_factory_light: "positional_factory env0 ''light''"
  by (simp add: positional_factory_def factory0_def)









lemma CreateGenerator_constant: "CreateGenerator x (constant_node v) = Inr (ConstantGenerator v)"
  by (simp add: CreateGenerator_def constant_node_def)


lemma directive_fields [simp]:
  "node_position (directive p q m ty b) = p"
  "node_orientation (directive p q m ty b) = constant_node (CVector3 0 0 0)"
  "attr_quantity (directive p q m ty b) = q" "attr_max_trials (directive p q m ty b) = m"
  "node_entity (directive p q m ty b) = Some (ty, b)" "base_num (directive p q m ty b) = 0"
  "attr_base_num (directive p q m ty b) = None"
  by (simp_all add: directive_def base_num_def)















text \<open>An instance of claim C1: one light, a positional entity.\<close>

theorem Distribute_positional_never_returns_witness:
  "Distribute env0 (directive (constant_node (CVector3 1 0 0)) 1 0 ''light'' ''light'')
     (empty_space [engine_west, engine_east]) = None"
proof -
  let ?t = "directive (constant_node (CVector3 1 0 0)) 1 0 ''light'' ''light''"
  have pos: "CreateGenerator env0 (node_position ?t) = Inr (ConstantGenerator (CVector3 1 0 0))"
    by (simp add: CreateGenerator_constant)
  have ori: "CreateGenerator env0 (node_orientation ?t) = Inr (ConstantGenerator (CVector3 0 0 0))"
    by (simp add: CreateGenerator_constant)
  have ng: "\<not> is_grid (ConstantGenerator (CVector3 1 0 0))" "\<not> is_grid (ConstantGenerator (CVector3 0 0 0))"
    by simp_all
  have ent: "node_entity ?t = Some (''light'', ''light'')" by simp
  have q: "0 < attr_quantity ?t" by simp
  show ?thesis
    by (rule Distribute_positional_never_returns[OF pos ori ng ent positional_factory_light q])
qed




section \<open>Properties of the tag equipped entity\<close>

lemma SetTagPayloads_loop_length:
  "length (SetTagPayloads_loop i vec_payloads insts) = length insts"
proof (induction i vec_payloads insts rule: SetTagPayloads_loop.induct)
  case (1 i vec_payloads insts)
  show ?case
  proof (cases "i < length vec_payloads")
    case True
    then show ?thesis
      using "1.IH"[OF True] by (subst SetTagPayloads_loop.simps) simp
  next
    case False
    then show ?thesis by (subst SetTagPayloads_loop.simps) simp
  qed
qed

lemma SetTagPayloads_loop_nth:
  "length vec_payloads \<le> length insts \<Longrightarrow> j < length insts \<Longrightarrow>
   SetTagPayloads_loop i vec_payloads insts ! j =
     (if i \<le> j \<and> j < length vec_payloads
      then (insts ! j)\<lparr>Tag := SetPayload (vec_payloads ! j) (Tag (insts ! j))\<rparr>
      else insts ! j)"
proof (induction i vec_payloads insts rule: SetTagPayloads_loop.induct)
  case (1 i vec_payloads insts)
  show ?case
  proof (cases "i < length vec_payloads")
    case True
    let ?insts = "insts[i := (insts ! i)\<lparr>Tag := SetPayload (vec_payloads ! i) (Tag (insts ! i))\<rparr>]"
    have ih: "SetTagPayloads_loop (i + 1) vec_payloads ?insts ! j =
       (if i + 1 \<le> j \<and> j < length vec_payloads
        then (?insts ! j)\<lparr>Tag := SetPayload (vec_payloads ! j) (Tag (?insts ! j))\<rparr>
        else ?insts ! j)"
      using "1.IH"[OF True] "1.prems" by simp
    have unf: "SetTagPayloads_loop i vec_payloads insts = SetTagPayloads_loop (i + 1) vec_payloads ?insts"
      using True by (subst SetTagPayloads_loop.simps) simp
    show ?thesis
      unfolding unf ih using True "1.prems" by (auto simp: nth_list_update)
  next
    case False
    then have "SetTagPayloads_loop i vec_payloads insts = insts"
      by (subst SetTagPayloads_loop.simps) simp
    then show ?thesis using False by auto
  qed
qed


text \<open>
  Claim C10. If the vector of payloads has as many elements as there are tag instances,
  \<^verbatim>\<open>SetTagPayloads\<close> returns and the payload of the \<open>i\<close>-th tag is the \<open>i\<close>-th element,
  for every \<open>i\<close>, nothing else of an instance being changed; otherwise it throws and the
  instances are as they were.
\<close>

theorem SetTagPayloads_all_or_nothing:
  "(length vec_payloads = length insts \<longrightarrow>
      (\<exists>insts'. SetTagPayloads cid vec_payloads insts = Done () insts'
         \<and> length insts' = length insts
         \<and> (\<forall>i < length insts.
               insts' ! i = (insts ! i)\<lparr>Tag := (Tag (insts ! i))\<lparr>m_strPayload := vec_payloads ! i\<rparr>\<rparr>)))
   \<and> (length vec_payloads \<noteq> length insts \<longrightarrow>
        SetTagPayloads cid vec_payloads insts =
          Throw (payload_size_exception cid (length insts) (length vec_payloads)) insts)"
  by (simp add: SetTagPayloads_def SetTagPayloads_loop_length SetTagPayloads_loop_nth SetPayload_def)


text \<open>Two tags: two payloads are stored, one payload is refused.\<close>

theorem SetTagPayloads_all_or_nothing_witness:
  "SetTagPayloads ''box.tags'' [''a'', ''b''] [tag0 ''x'', tag0 ''y''] = Done () [tag0 ''a'', tag0 ''b'']
   \<and> SetTagPayloads ''box.tags'' [''a''] [tag0 ''x'', tag0 ''y''] =
       Throw (payload_size_exception ''box.tags'' 2 1) [tag0 ''x'', tag0 ''y'']"
proof -
  obtain insts' where d: "SetTagPayloads ''box.tags'' [''a'', ''b''] [tag0 ''x'', tag0 ''y''] = Done () insts'"
    and n: "length insts' = 2"
    and a: "\<forall>i < 2. insts' ! i = ([tag0 ''x'', tag0 ''y''] ! i)\<lparr>Tag := (Tag ([tag0 ''x'', tag0 ''y''] ! i))\<lparr>m_strPayload := [''a'', ''b''] ! i\<rparr>\<rparr>"
    using SetTagPayloads_all_or_nothing[of "[''a'', ''b'']" "[tag0 ''x'', tag0 ''y'']" "''box.tags''"]
    by auto
  have "insts' ! 0 = tag0 ''a''" "insts' ! 1 = tag0 ''b''" using a by (simp_all add: tag0_def)
  then have "insts' = [tag0 ''a'', tag0 ''b'']" using n
    by (metis (no_types, lifting) One_nat_def length_0_conv length_Suc_conv nth_Cons_0 nth_Cons_Suc numeral_2_eq_2)
  moreover have "SetTagPayloads ''box.tags'' [''a''] [tag0 ''x'', tag0 ''y''] =
       Throw (payload_size_exception ''box.tags'' 2 1) [tag0 ''x'', tag0 ''y'']"
    using SetTagPayloads_all_or_nothing[of "[''a'']" "[tag0 ''x'', tag0 ''y'']" "''box.tags''"]
    by (simp add: numeral_2_eq_2)
  ultimately show ?thesis using d by simp
qed


end
